theory Spec2Isabelle
  imports Main
begin

section \<open>Skelly pose editor: cross-panel bone selection\<close>

text \<open>
  A shallow embedding of \<^verbatim>\<open>Source/Skelly/Private/SkellyPoseEditor.cpp\<close>: the
  controller \<^verbatim>\<open>FPoseEditor\<close>, its preview component, the bone edit proxy and the
  three panels it keeps in step. Member functions take the editor's state and return
  the new one. A C++ pointer that may be null is an \<open>option\<close>; dereferencing an
  absent object, a failed \<^verbatim>\<open>check(...)\<close> and an array read out of range are values
  of \<open>error\<close>, so every way the source can stop is a branch of the model.
\<close>

subsection \<open>Data\<close>

text \<open>
  \<^verbatim>\<open>FName\<close> is a string. A \<^verbatim>\<open>USkeletalMesh*\<close> or \<^verbatim>\<open>USkeleton*\<close> that is not null is the
  address of the asset: the source compares mesh pointers, not mesh contents. Bone
  indices are \<^verbatim>\<open>int32\<close>; the source only stores, copies and compares them (the one
  counter, the loop index of \<^verbatim>\<open>SetSelectedBoneNames\<close>, stays below an array length),
  so they are integers here.
\<close>

type_synonym FName = string
type_synonym USkeletalMeshPtr = nat
type_synonym USkeletonPtr = nat

datatype error = CheckFailed | NullDereference | IndexOutOfRange

text \<open>
  The two engine objects the editor owns and hands to its panels by pointer.
\<close>

datatype UObjectPtr = DetailsViewBonePtr | PreviewComponentPtr

text \<open>
  \<^verbatim>\<open>FTransform\<close> with the three components \<^verbatim>\<open>SetComponents\<close> assigns. Quaternions,
  rotators and vectors are tuples of floats the editor never computes with: they are
  the type parameters \<open>'q\<close>, \<open>'r\<close> and \<open>'v\<close>.
\<close>

record ('q, 'v) FTransform =
  Rotation :: 'q
  Translation :: 'v
  Scale3D :: 'v

definition SetComponents ::
  "('q, 'v) FTransform \<Rightarrow> 'q \<Rightarrow> 'v \<Rightarrow> 'v \<Rightarrow> ('q, 'v) FTransform" where
  "SetComponents t InRotation InTranslation InScale3D =
     t\<lparr>Rotation := InRotation, Translation := InTranslation, Scale3D := InScale3D\<rparr>"

text \<open>
  \<^verbatim>\<open>FAnimNode_ModifyBone\<close>, the skeletal control of an edited bone; the source reads
  its members \<^verbatim>\<open>Rotation\<close>, \<^verbatim>\<open>Translation\<close> and \<^verbatim>\<open>Scale\<close> (prefixed here, the
  transform has members of the same names).
\<close>

record ('r, 'v) FAnimNode_ModifyBone =
  NodeRotation :: 'r
  NodeTranslation :: 'v
  NodeScale :: 'v

text \<open>\<^verbatim>\<open>USkellyBone\<close>, the bone edit proxy the details view binds to.\<close>

record ('q, 'v) USkellyBone =
  BoneName :: FName
  ParentBoneName :: FName
  BoneTransform :: "('q, 'v) FTransform"

text \<open>
  \<^verbatim>\<open>UDebugSkelMeshComponent\<close>, the preview component, with the members the editor reads
  and writes. \<^verbatim>\<open>PreviewInstance\<close> is the animation instance, null or not; the editor
  uses it only through \<^verbatim>\<open>FindModifiedBone\<close>, so it is the map from a bone's name to
  its skeletal control.
\<close>

record ('r, 'v) UDebugSkelMeshComponent =
  SkeletalMesh :: "USkeletalMeshPtr option"
  BonesOfInterest :: "int list"
  PreviewInstance :: "(FName \<rightharpoonup> ('r, 'v) FAnimNode_ModifyBone) option"

text \<open>
  Modelled from the spec: the engine's \<^verbatim>\<open>SetSkeletalMesh\<close>, by which the controller
  "swaps the preview mesh": the component's mesh becomes the given one.
\<close>

definition SetSkeletalMesh ::
  "('r, 'v) UDebugSkelMeshComponent \<Rightarrow> USkeletalMeshPtr \<Rightarrow> ('r, 'v) UDebugSkelMeshComponent" where
  "SetSkeletalMesh c InSkelMesh = c\<lparr>SkeletalMesh := Some InSkelMesh\<rparr>"

text \<open>\<^verbatim>\<open>USkellyPose\<close>: the editor asks it for its skeleton only.\<close>

record USkellyPose =
  Skeleton :: "USkeletonPtr option"

subsection \<open>The engine's queries\<close>

text \<open>
  The bone queries of the preview component, the compatibility test of a skeleton, the
  reference pose of a mesh, the conversion of a rotator and the re-initialisation of
  the component's animation are engine code. They are parameters of the model, so
  every theorem holds whatever the engine computes. The component's bone queries read
  its mesh, which is their first argument.
\<close>

record ('r, 'q, 'v) engine =
  IsCompatibleMesh :: "USkeletonPtr \<Rightarrow> USkeletalMeshPtr \<Rightarrow> bool"
  GetBoneIndex :: "USkeletalMeshPtr option \<Rightarrow> FName \<Rightarrow> int"
  GetBoneName :: "USkeletalMeshPtr option \<Rightarrow> int \<Rightarrow> FName"
  GetParentBone :: "USkeletalMeshPtr option \<Rightarrow> FName \<Rightarrow> FName"
  GetRefBonePose :: "USkeletalMeshPtr \<Rightarrow> ('q, 'v) FTransform list"
  Quaternion :: "'r \<Rightarrow> 'q"
  InitAnim :: "('r, 'v) UDebugSkelMeshComponent \<Rightarrow> bool \<Rightarrow> ('r, 'v) UDebugSkelMeshComponent"

subsection \<open>The panels\<close>

text \<open>
  The panels are the skeleton tree (\<^verbatim>\<open>SSkellySkeletonTree.cpp\<close>), the viewport
  widget and its client (\<^verbatim>\<open>SkellyPoseEditorViewportClient.cpp\<close>) and the engine's
  details view and preview scene. Of these only part of the viewport widget is among
  the sources, and none of the operations the controller calls on them is; each panel
  is the state the spec speaks of, and each operation is what the spec says of it.
\<close>

text \<open>
  Modelled from the spec: the skeleton tree \<^verbatim>\<open>SSkeletonTree\<close>, a panel that "reports
  user bone selection": the bone names selected in it, and the number of "selection
  changed" notifications it has raised.
\<close>

record SSkeletonTree =
  SelectedBoneNames :: "FName list"
  OnSelectionChangedRaised :: nat

text \<open>
  Modelled from the spec: \<^verbatim>\<open>SSkeletonTree::GetSelectedBoneNames\<close>, the spec's
  \<^verbatim>\<open>getSelectedBoneNames()\<close>: the names currently selected in the tree.
\<close>

definition SSkeletonTree_GetSelectedBoneNames :: "SSkeletonTree \<Rightarrow> FName list" where
  "SSkeletonTree_GetSelectedBoneNames t = SelectedBoneNames t"

text \<open>
  Modelled from the spec: \<^verbatim>\<open>SSkeletonTree::SetSelectedBoneNames\<close>, the spec's
  \<^verbatim>\<open>setSelectedBoneNames(names)\<close>, a one-directional "set selection" call that does
  not re-raise "selection changed": the selection becomes the given names.
\<close>

definition SSkeletonTree_SetSelectedBoneNames :: "SSkeletonTree \<Rightarrow> FName list \<Rightarrow> SSkeletonTree" where
  "SSkeletonTree_SetSelectedBoneNames t inBoneNames = t\<lparr>SelectedBoneNames := inBoneNames\<rparr>"

text \<open>
  Modelled from the spec: a selection the user makes in the tree (the widget's input
  handling): the selection becomes the given names and the widget raises one
  "selection changed" notification.
\<close>

definition SSkeletonTree_UserSelect :: "SSkeletonTree \<Rightarrow> FName list \<Rightarrow> SSkeletonTree" where
  "SSkeletonTree_UserSelect t names =
     t\<lparr>SelectedBoneNames := names, OnSelectionChangedRaised := Suc (OnSelectionChangedRaised t)\<rparr>"

text \<open>
  Modelled from the spec: \<^verbatim>\<open>SPoseEditorViewport::Refresh\<close>, whose body is not among the
  sources; the handler's side effect is "refreshed panel state" (the source: "force
  the viewport to redraw"). The widget is the number of redraws asked of it.
\<close>

record SPoseEditorViewport =
  RefreshCalls :: nat

definition Refresh :: "SPoseEditorViewport \<Rightarrow> SPoseEditorViewport" where
  "Refresh v = v\<lparr>RefreshCalls := Suc (RefreshCalls v)\<rparr>"

text \<open>
  Modelled from the spec: the viewport client \<^verbatim>\<open>FPoseEditorViewportClient\<close>, which
  the controller "informs" of the preview component and which "reports bone picks made
  in 3D": the component it was last told of, and the number of "selection changed"
  notifications it has raised.
\<close>

record FPoseEditorViewportClient =
  SkeletalMeshPreviewComponent :: "UObjectPtr option"
  ClientSelectionChangedRaised :: nat

text \<open>
  Modelled from the spec: \<^verbatim>\<open>FPoseEditorViewportClient::SetSkeletalMeshPreviewComponent\<close>,
  by which the controller "informs the viewport": the client keeps the component.
\<close>

definition SetSkeletalMeshPreviewComponent ::
  "FPoseEditorViewportClient \<Rightarrow> UObjectPtr \<Rightarrow> FPoseEditorViewportClient" where
  "SetSkeletalMeshPreviewComponent vc inPreviewComponent =
     vc\<lparr>SkeletalMeshPreviewComponent := Some inPreviewComponent\<rparr>"

text \<open>
  Modelled from the spec: the engine's details view and its
  \<^verbatim>\<open>SetObject(object, bForceRefresh)\<close>, the spec's \<^verbatim>\<open>setBoundObject(object|none)\<close>: the
  view is bound to the object or, given null, to nothing.
\<close>

record IDetailsView =
  BoundObject :: "UObjectPtr option"

definition SetObject :: "IDetailsView \<Rightarrow> UObjectPtr option \<Rightarrow> bool \<Rightarrow> IDetailsView" where
  "SetObject dv InObject bForceRefresh = dv\<lparr>BoundObject := InObject\<rparr>"

text \<open>
  Modelled from the spec: the engine's preview scene and its \<^verbatim>\<open>AddComponent\<close>, by
  which the controller "re-adds" the preview component "to the render scene": the
  scene is the components added to it, one for each call, in the order of the calls
  (the transform passed is always \<^verbatim>\<open>FTransform::Identity\<close>).
\<close>

record FPreviewScene =
  AddedComponents :: "UObjectPtr list"

definition AddComponent :: "FPreviewScene \<Rightarrow> UObjectPtr \<Rightarrow> FPreviewScene" where
  "AddComponent scene Component = scene\<lparr>AddedComponents := AddedComponents scene @ [Component]\<rparr>"

subsection \<open>The controller\<close>

text \<open>
  The members of \<^verbatim>\<open>FPoseEditor\<close> the selection code reads and writes, named as in the
  source without the leading underscore.
\<close>

record ('r, 'q, 'v) FPoseEditor =
  currentPose :: "USkellyPose option"
  skeletalMeshPreviewComponent :: "('r, 'v) UDebugSkelMeshComponent option"
  detailsViewBone :: "('q, 'v) USkellyBone option"
  skeletonTree :: "SSkeletonTree option"
  viewport :: "SPoseEditorViewport option"
  viewportClientWeakPtr :: "FPoseEditorViewportClient option"
  detailsView :: "IDetailsView option"
  previewScene :: FPreviewScene

text \<open>
  \<^verbatim>\<open>SetSelectedBoneNames\<close>. \<^verbatim>\<open>Empty(n)\<close> clears the array and
  \<^verbatim>\<open>AddUninitialized(n)\<close> appends \<open>n\<close> slots of unspecified content (zeros here; the
  loop overwrites every one of them). The loop assigns slot \<open>i\<close> for each
  \<open>i < inBoneNames.Num()\<close>; an indexed write outside the array stops the program.
\<close>

definition AddUninitialized :: "int list \<Rightarrow> nat \<Rightarrow> int list" where
  "AddUninitialized xs n = xs @ replicate n 0"

function SetSelectedBoneNames_loop ::
  "(FName \<Rightarrow> int) \<Rightarrow> FName list \<Rightarrow> nat \<Rightarrow> int list \<Rightarrow> error + int list" where
  "SetSelectedBoneNames_loop getBoneIndex inBoneNames i boi =
     (if i < length inBoneNames then
        (if i < length boi then
           SetSelectedBoneNames_loop getBoneIndex inBoneNames (Suc i)
             (boi[i := getBoneIndex (inBoneNames ! i)])
         else Inl IndexOutOfRange)
      else Inr boi)"
  by pat_completeness auto
termination
  by (relation "measure (\<lambda>(g, names, i, boi). length names - i)") auto

declare SetSelectedBoneNames_loop.simps [simp del]

definition SetSelectedBoneNames ::
  "('r, 'q, 'v) engine \<Rightarrow> ('r, 'q, 'v) FPoseEditor \<Rightarrow> FName list \<Rightarrow>
   error + ('r, 'q, 'v) FPoseEditor" where
  "SetSelectedBoneNames E s inBoneNames =
     (case skeletalMeshPreviewComponent s of
        None \<Rightarrow> Inr s
      | Some c \<Rightarrow>
          (case SetSelectedBoneNames_loop (GetBoneIndex E (SkeletalMesh c)) inBoneNames 0
                  (AddUninitialized [] (length inBoneNames)) of
             Inl e \<Rightarrow> Inl e
           | Inr boi \<Rightarrow>
               Inr (s\<lparr>skeletalMeshPreviewComponent := Some (c\<lparr>BonesOfInterest := boi\<rparr>)\<rparr>)))"

text \<open>
  \<^verbatim>\<open>GetSelectedBoneNames\<close>: the out-parameter is emptied, then the name of each bone
  of interest is added at its end, in order. Without a component it is emptied only.
\<close>

primrec GetSelectedBoneNames_loop ::
  "(int \<Rightarrow> FName) \<Rightarrow> int list \<Rightarrow> FName list \<Rightarrow> FName list" where
  "GetSelectedBoneNames_loop getBoneName [] outBoneNames = outBoneNames"
| "GetSelectedBoneNames_loop getBoneName (boneIndex # rest) outBoneNames =
     GetSelectedBoneNames_loop getBoneName rest (outBoneNames @ [getBoneName boneIndex])"

definition GetSelectedBoneNames ::
  "('r, 'q, 'v) engine \<Rightarrow> ('r, 'q, 'v) FPoseEditor \<Rightarrow> FName list" where
  "GetSelectedBoneNames E s =
     (case skeletalMeshPreviewComponent s of
        Some c \<Rightarrow> GetSelectedBoneNames_loop (GetBoneName E (SkeletalMesh c)) (BonesOfInterest c) []
      | None \<Rightarrow> [])"

text \<open>
  \<^verbatim>\<open>GetDetailsViewSourceObject\<close>: the returned pointer is the proxy's or null. With
  one bone selected the source writes the proxy's name and parent name, asks the
  preview instance for the bone's skeletal control, and takes the transform from the
  control or, without one, from the mesh's reference pose at the bone's index. It
  checks none of the proxy, the preview instance and the mesh for null, nor the index
  against the reference pose.
\<close>

definition GetDetailsViewSourceObject ::
  "('r, 'q, 'v) engine \<Rightarrow> ('r, 'q, 'v) FPoseEditor \<Rightarrow>
   error + (('r, 'q, 'v) FPoseEditor \<times> UObjectPtr option)" where
  "GetDetailsViewSourceObject E s =
     (case skeletalMeshPreviewComponent s of
        None \<Rightarrow> Inr (s, None)
      | Some c \<Rightarrow>
          if length (BonesOfInterest c) = 1 then
            (let boneIndex = BonesOfInterest c ! 0;
                 boneName = GetBoneName E (SkeletalMesh c) boneIndex
             in case detailsViewBone s of
                  None \<Rightarrow> Inl NullDereference
                | Some b \<Rightarrow>
                    (let b1 = b\<lparr>BoneName := boneName,
                                ParentBoneName := GetParentBone E (SkeletalMesh c) boneName\<rparr>
                     in case PreviewInstance c of
                          None \<Rightarrow> Inl NullDereference
                        | Some FindModifiedBone \<Rightarrow>
                            (case FindModifiedBone boneName of
                               Some skeletalControl \<Rightarrow>
                                 Inr (s\<lparr>detailsViewBone := Some (b1\<lparr>BoneTransform :=
                                         SetComponents (BoneTransform b1)
                                           (Quaternion E (NodeRotation skeletalControl))
                                           (NodeTranslation skeletalControl)
                                           (NodeScale skeletalControl)\<rparr>)\<rparr>,
                                      Some DetailsViewBonePtr)
                             | None \<Rightarrow>
                                 (case SkeletalMesh c of
                                    None \<Rightarrow> Inl NullDereference
                                  | Some mesh \<Rightarrow>
                                      if 0 \<le> boneIndex \<and>
                                         nat boneIndex < length (GetRefBonePose E mesh)
                                      then
                                        Inr (s\<lparr>detailsViewBone := Some (b1\<lparr>BoneTransform :=
                                                GetRefBonePose E mesh ! nat boneIndex\<rparr>)\<rparr>,
                                             Some DetailsViewBonePtr)
                                      else Inl IndexOutOfRange))))
          else Inr (s, None))"

text \<open>
  The refresh of the details view both handlers end with: nothing without a details
  view, else \<^verbatim>\<open>SetObject(GetDetailsViewSourceObject(), true)\<close>.
\<close>

definition RefreshDetailsView ::
  "('r, 'q, 'v) engine \<Rightarrow> ('r, 'q, 'v) FPoseEditor \<Rightarrow> error + ('r, 'q, 'v) FPoseEditor" where
  "RefreshDetailsView E s =
     (case detailsView s of
        None \<Rightarrow> Inr s
      | Some dv \<Rightarrow>
          (case GetDetailsViewSourceObject E s of
             Inl e \<Rightarrow> Inl e
           | Inr (s', obj) \<Rightarrow> Inr (s'\<lparr>detailsView := Some (SetObject dv obj True)\<rparr>)))"

text \<open>
  \<^verbatim>\<open>SkeletonTree_OnSelectionChanged\<close>: the tree is dereferenced unchecked; the
  viewport and the details view are used only when valid.
\<close>

definition SkeletonTree_OnSelectionChanged ::
  "('r, 'q, 'v) engine \<Rightarrow> ('r, 'q, 'v) FPoseEditor \<Rightarrow> error + ('r, 'q, 'v) FPoseEditor" where
  "SkeletonTree_OnSelectionChanged E s =
     (case skeletonTree s of
        None \<Rightarrow> Inl NullDereference
      | Some tree \<Rightarrow>
          (case SetSelectedBoneNames E s (SSkeletonTree_GetSelectedBoneNames tree) of
             Inl e \<Rightarrow> Inl e
           | Inr s1 \<Rightarrow>
               RefreshDetailsView E
                 (case viewport s1 of
                    None \<Rightarrow> s1
                  | Some v \<Rightarrow> s1\<lparr>viewport := Some (Refresh v)\<rparr>)))"

text \<open>\<^verbatim>\<open>Viewport_OnSelectionChanged\<close>: the tree and the details view are used only when valid.\<close>

definition Viewport_OnSelectionChanged ::
  "('r, 'q, 'v) engine \<Rightarrow> ('r, 'q, 'v) FPoseEditor \<Rightarrow> error + ('r, 'q, 'v) FPoseEditor" where
  "Viewport_OnSelectionChanged E s =
     (let boneNames = GetSelectedBoneNames E s
      in RefreshDetailsView E
           (case skeletonTree s of
              None \<Rightarrow> s
            | Some tree \<Rightarrow>
                s\<lparr>skeletonTree := Some (SSkeletonTree_SetSelectedBoneNames tree boneNames)\<rparr>))"

text \<open>
  \<^verbatim>\<open>SetPreviewSkeletalMesh\<close>: two \<^verbatim>\<open>check\<close>s, then the pose's skeleton is
  dereferenced unchecked and, for a compatible mesh, so is the preview component. A
  compatible mesh other than the component's is set, the component is added to the
  preview scene and a viewport client that is still alive is told; the component's
  own mesh only has its animation initialised again; an incompatible mesh does nothing.
\<close>

definition SetPreviewSkeletalMesh ::
  "('r, 'q, 'v) engine \<Rightarrow> ('r, 'q, 'v) FPoseEditor \<Rightarrow> USkeletalMeshPtr option \<Rightarrow>
   error + ('r, 'q, 'v) FPoseEditor" where
  "SetPreviewSkeletalMesh E s inPreviewSkeletalMesh =
     (case currentPose s of
        None \<Rightarrow> Inl CheckFailed
      | Some pose \<Rightarrow>
          (case inPreviewSkeletalMesh of
             None \<Rightarrow> Inl CheckFailed
           | Some mesh \<Rightarrow>
               (case Skeleton pose of
                  None \<Rightarrow> Inl NullDereference
                | Some skeleton \<Rightarrow>
                    if IsCompatibleMesh E skeleton mesh then
                      (case skeletalMeshPreviewComponent s of
                         None \<Rightarrow> Inl NullDereference
                       | Some c \<Rightarrow>
                           if Some mesh \<noteq> SkeletalMesh c then
                             Inr (s\<lparr>skeletalMeshPreviewComponent := Some (SetSkeletalMesh c mesh),
                                    previewScene := AddComponent (previewScene s) PreviewComponentPtr,
                                    viewportClientWeakPtr :=
                                      (case viewportClientWeakPtr s of
                                         None \<Rightarrow> None
                                       | Some viewportClient \<Rightarrow>
                                           Some (SetSkeletalMeshPreviewComponent viewportClient
                                                   PreviewComponentPtr))\<rparr>)
                           else
                             Inr (s\<lparr>skeletalMeshPreviewComponent := Some (InitAnim E c True)\<rparr>))
                    else Inr s)))"



subsection \<open>Notions the properties are stated with\<close>

text \<open>The engine's index for a name it does not find.\<close>

definition INDEX_NONE :: int where
  "INDEX_NONE = - 1"

text \<open>
  The test \<^verbatim>\<open>bSingleBoneSelected\<close> of \<^verbatim>\<open>GetDetailsViewSourceObject\<close>: the preview
  component exists and has exactly one bone of interest.
\<close>

definition bSingleBoneSelected :: "('r, 'q, 'v) FPoseEditor \<Rightarrow> bool" where
  "bSingleBoneSelected s =
     (case skeletalMeshPreviewComponent s of
        None \<Rightarrow> False
      | Some c \<Rightarrow> length (BonesOfInterest c) = 1)"

text \<open>
  A name is a bone of a mesh when the engine finds an index for it, the index lies
  inside the mesh's reference pose, and the engine names that index with the same name.
\<close>

definition IsBoneOfMesh :: "('r, 'q, 'v) engine \<Rightarrow> USkeletalMeshPtr \<Rightarrow> FName \<Rightarrow> bool" where
  "IsBoneOfMesh E mesh b =
     (0 \<le> GetBoneIndex E (Some mesh) b \<and>
      nat (GetBoneIndex E (Some mesh) b) < length (GetRefBonePose E mesh) \<and>
      GetBoneName E (Some mesh) (GetBoneIndex E (Some mesh) b) = b)"

text \<open>
  The selection the three panels show: the bones of interest the viewport highlights,
  the names selected in the tree, the object the details view is bound to, and the
  proxy's content.
\<close>

definition SelectionState ::
  "('r, 'q, 'v) FPoseEditor \<Rightarrow>
   int list option \<times> FName list option \<times> UObjectPtr option option \<times> ('q, 'v) USkellyBone option" where
  "SelectionState s =
     (map_option BonesOfInterest (skeletalMeshPreviewComponent s),
      map_option SelectedBoneNames (skeletonTree s),
      map_option BoundObject (detailsView s),
      detailsViewBone s)"

text \<open>
  Modelled from the spec: a selection the user makes in the skeleton tree, before the
  tree notifies the controller (the widget's input handling is not among the sources):
  the names become the tree's selection, if there is a tree.
\<close>

definition UserSelectsInTree ::
  "('r, 'q, 'v) FPoseEditor \<Rightarrow> FName list \<Rightarrow> ('r, 'q, 'v) FPoseEditor" where
  "UserSelectsInTree s names =
     s\<lparr>skeletonTree := map_option (\<lambda>t. SSkeletonTree_UserSelect t names) (skeletonTree s)\<rparr>"

text \<open>
  Modelled from the spec: a bone pick the user makes in the viewport, before the
  viewport client notifies the controller (the client's input handling is not among
  the sources): the picked indices become the preview component's bones of interest,
  the "selected bone indices" the controller reads back, and the client raises one
  "selection changed" notification.
\<close>

definition UserPicksInViewport ::
  "('r, 'q, 'v) FPoseEditor \<Rightarrow> int list \<Rightarrow> ('r, 'q, 'v) FPoseEditor" where
  "UserPicksInViewport s boneIndices =
     s\<lparr>skeletalMeshPreviewComponent :=
         map_option (\<lambda>c. c\<lparr>BonesOfInterest := boneIndices\<rparr>) (skeletalMeshPreviewComponent s),
       viewportClientWeakPtr :=
         map_option (\<lambda>vc. vc\<lparr>ClientSelectionChangedRaised := Suc (ClientSelectionChangedRaised vc)\<rparr>)
           (viewportClientWeakPtr s)\<rparr>"

text \<open>
  \<^verbatim>\<open>GetDetailsViewSourceObject\<close> runs to its end exactly when everything it
  dereferences or indexes is there: with a single bone selected, the proxy and the
  preview instance exist and the bone either has a skeletal control or the mesh exists
  and the bone's index lies inside its reference pose.
\<close>

definition DetailsSourceDefined :: "('r, 'q, 'v) engine \<Rightarrow> ('r, 'q, 'v) FPoseEditor \<Rightarrow> bool" where
  "DetailsSourceDefined E s =
     (case skeletalMeshPreviewComponent s of
        None \<Rightarrow> True
      | Some c \<Rightarrow>
          length (BonesOfInterest c) \<noteq> 1 \<or>
          (detailsViewBone s \<noteq> None \<and>
           (case PreviewInstance c of
              None \<Rightarrow> False
            | Some FindModifiedBone \<Rightarrow>
                (case FindModifiedBone (GetBoneName E (SkeletalMesh c) (BonesOfInterest c ! 0)) of
                   Some skeletalControl \<Rightarrow> True
                 | None \<Rightarrow>
                     (case SkeletalMesh c of
                        None \<Rightarrow> False
                      | Some mesh \<Rightarrow>
                          0 \<le> BonesOfInterest c ! 0 \<and>
                          nat (BonesOfInterest c ! 0) < length (GetRefBonePose E mesh))))))"

text \<open>
  What the proxy shows for a bone \<open>b\<close> of a mesh: the name, the parent the engine
  gives it, and the transform of its skeletal control in the preview instance (here
  its lookup \<open>f\<close>) or, without one, its entry of the reference pose.
\<close>

definition BoneProxy ::
  "('r, 'q, 'v) engine \<Rightarrow> USkeletalMeshPtr \<Rightarrow> (FName \<rightharpoonup> ('r, 'v) FAnimNode_ModifyBone) \<Rightarrow>
   FName \<Rightarrow> ('q, 'v) USkellyBone" where
  "BoneProxy E mesh f b =
     \<lparr>BoneName = b,
      ParentBoneName = GetParentBone E (Some mesh) b,
      BoneTransform =
        (case f b of
           Some skeletalControl \<Rightarrow>
             \<lparr>Rotation = Quaternion E (NodeRotation skeletalControl),
              Translation = NodeTranslation skeletalControl,
              Scale3D = NodeScale skeletalControl\<rparr>
         | None \<Rightarrow> GetRefBonePose E mesh ! nat (GetBoneIndex E (Some mesh) b))\<rparr>"

text \<open>
  The "selection changed" notifications the two panels have raised so far.
\<close>

definition SelectionChangedRaised ::
  "('r, 'q, 'v) FPoseEditor \<Rightarrow> nat option \<times> nat option" where
  "SelectionChangedRaised s =
     (map_option OnSelectionChangedRaised (skeletonTree s),
      map_option ClientSelectionChangedRaised (viewportClientWeakPtr s))"

subsection \<open>An example engine and editor\<close>

text \<open>
  A mesh (at address 7) of three bones, Root, Spine_01 and Spine_02, each the child of
  the one before, compatible with the skeleton at address 1; the mesh at address 9 is
  not. Rotators, quaternions and vectors are numbers, and re-initialising the animation
  makes sure the component has a preview instance. The editor is the one
  \<^verbatim>\<open>InitPoseEditor\<close> leaves: every panel exists, the component previews mesh 7,
  nothing is selected, and Spine_01 has been edited.
\<close>

definition exampleBoneIndex :: "FName \<Rightarrow> int" where
  "exampleBoneIndex n =
     (if n = ''Root'' then 0 else if n = ''Spine_01'' then 1
      else if n = ''Spine_02'' then 2 else INDEX_NONE)"

definition exampleBoneName :: "int \<Rightarrow> FName" where
  "exampleBoneName i =
     (if i = 0 then ''Root'' else if i = 1 then ''Spine_01''
      else if i = 2 then ''Spine_02'' else ''None'')"

definition exampleRefPose :: "(nat, nat) FTransform list" where
  "exampleRefPose =
     [\<lparr>Rotation = 0, Translation = 10, Scale3D = 1\<rparr>,
      \<lparr>Rotation = 0, Translation = 20, Scale3D = 1\<rparr>,
      \<lparr>Rotation = 0, Translation = 30, Scale3D = 1\<rparr>]"

definition exampleEngine :: "(nat, nat, nat) engine" where
  "exampleEngine =
     \<lparr>IsCompatibleMesh = (\<lambda>skeleton mesh. skeleton = 1 \<and> mesh = 7),
      GetBoneIndex = (\<lambda>mesh n. case mesh of None \<Rightarrow> INDEX_NONE | Some m \<Rightarrow> exampleBoneIndex n),
      GetBoneName = (\<lambda>mesh i. case mesh of None \<Rightarrow> ''None'' | Some m \<Rightarrow> exampleBoneName i),
      GetParentBone = (\<lambda>mesh n. case mesh of None \<Rightarrow> ''None''
                                 | Some m \<Rightarrow> exampleBoneName (exampleBoneIndex n - 1)),
      GetRefBonePose = (\<lambda>mesh. exampleRefPose),
      Quaternion = (\<lambda>r. r + 100),
      InitAnim = (\<lambda>c bForceReinit. c\<lparr>PreviewInstance :=
        Some (case PreviewInstance c of None \<Rightarrow> Map.empty | Some f \<Rightarrow> f)\<rparr>)\<rparr>"

definition exampleComponent :: "(nat, nat) UDebugSkelMeshComponent" where
  "exampleComponent =
     \<lparr>SkeletalMesh = Some 7, BonesOfInterest = [],
      PreviewInstance =
        Some [''Spine_01'' \<mapsto> \<lparr>NodeRotation = 5, NodeTranslation = 21, NodeScale = 2\<rparr>]\<rparr>"

definition exampleProxy :: "(nat, nat) USkellyBone" where
  "exampleProxy =
     \<lparr>BoneName = ''None'', ParentBoneName = ''None'',
      BoneTransform = \<lparr>Rotation = 0, Translation = 0, Scale3D = 1\<rparr>\<rparr>"

definition exampleEditor :: "(nat, nat, nat) FPoseEditor" where
  "exampleEditor =
     \<lparr>currentPose = Some \<lparr>Skeleton = Some 1\<rparr>,
      skeletalMeshPreviewComponent = Some exampleComponent,
      detailsViewBone = Some exampleProxy,
      skeletonTree = Some \<lparr>SelectedBoneNames = [], OnSelectionChangedRaised = 0\<rparr>,
      viewport = Some \<lparr>RefreshCalls = 0\<rparr>,
      viewportClientWeakPtr =
        Some \<lparr>SkeletalMeshPreviewComponent = Some PreviewComponentPtr,
              ClientSelectionChangedRaised = 0\<rparr>,
      detailsView = Some \<lparr>BoundObject = None\<rparr>,
      previewScene = \<lparr>AddedComponents = [PreviewComponentPtr]\<rparr>\<rparr>"

text \<open>The example editor with the given bones of interest.\<close>

definition exampleEditorWith :: "int list \<Rightarrow> (nat, nat, nat) FPoseEditor" where
  "exampleEditorWith boneIndices =
     exampleEditor\<lparr>skeletalMeshPreviewComponent :=
       Some (exampleComponent\<lparr>BonesOfInterest := boneIndices\<rparr>)\<rparr>"

text \<open>
  The example editor before its first preview mesh is set: the component has no mesh,
  the preview scene is empty and the viewport client knows no component.
\<close>

definition exampleEditorBeforeMesh :: "(nat, nat, nat) FPoseEditor" where
  "exampleEditorBeforeMesh =
     exampleEditor\<lparr>skeletalMeshPreviewComponent :=
         Some (exampleComponent\<lparr>SkeletalMesh := None, PreviewInstance := None\<rparr>),
       viewportClientWeakPtr :=
         Some \<lparr>SkeletalMeshPreviewComponent = None, ClientSelectionChangedRaised = 0\<rparr>,
       previewScene := \<lparr>AddedComponents = []\<rparr>\<rparr>"



subsection \<open>Selecting bone names\<close>

lemma SetSelectedBoneNames_loop_eq:
  "i \<le> length inBoneNames \<Longrightarrow> length boi = length inBoneNames \<Longrightarrow>
   SetSelectedBoneNames_loop g inBoneNames i boi =
     Inr (take i boi @ map g (drop i inBoneNames))"
proof (induction g inBoneNames i boi rule: SetSelectedBoneNames_loop.induct)
  case (1 g names i boi)
  show ?case
  proof (cases "i < length names")
    case True
    with "1.prems" have len: "i < length boi" by simp
    have step: "SetSelectedBoneNames_loop g names i boi =
        SetSelectedBoneNames_loop g names (Suc i) (boi[i := g (names ! i)])"
      using True len by (subst SetSelectedBoneNames_loop.simps) simp
    have ih: "SetSelectedBoneNames_loop g names (Suc i) (boi[i := g (names ! i)]) =
        Inr (take (Suc i) (boi[i := g (names ! i)]) @ map g (drop (Suc i) names))"
      using "1.IH" [OF True len] True "1.prems" by simp
    have "take (Suc i) (boi[i := g (names ! i)]) = take i boi @ [g (names ! i)]"
      using len by (simp add: take_Suc_conv_app_nth)
    moreover have "drop i names = names ! i # drop (Suc i) names"
      using True by (simp add: Cons_nth_drop_Suc)
    ultimately show ?thesis using step ih by simp
  next
    case False
    with "1.prems" have "i = length names" by simp
    then show ?thesis using "1.prems" by (subst SetSelectedBoneNames_loop.simps) simp
  qed
qed

lemma SetSelectedBoneNames_Some:
  "skeletalMeshPreviewComponent s = Some c \<Longrightarrow>
   SetSelectedBoneNames E s inBoneNames =
     Inr (s\<lparr>skeletalMeshPreviewComponent :=
              Some (c\<lparr>BonesOfInterest := map (GetBoneIndex E (SkeletalMesh c)) inBoneNames\<rparr>)\<rparr>)"
  by (simp add: SetSelectedBoneNames_def AddUninitialized_def SetSelectedBoneNames_loop_eq)

lemma SetSelectedBoneNames_None:
  "skeletalMeshPreviewComponent s = None \<Longrightarrow> SetSelectedBoneNames E s inBoneNames = Inr s"
  by (simp add: SetSelectedBoneNames_def)

lemma GetSelectedBoneNames_loop_eq:
  "GetSelectedBoneNames_loop g boi out = out @ map g boi"
  by (induction boi arbitrary: out) simp_all


lemma GetSelectedBoneNames_Some:
  "skeletalMeshPreviewComponent s = Some c \<Longrightarrow>
   GetSelectedBoneNames E s = map (GetBoneName E (SkeletalMesh c)) (BonesOfInterest c)"
  by (simp add: GetSelectedBoneNames_def GetSelectedBoneNames_loop_eq)

text \<open>
  Claim C10. For every list of bone names, known to the preview mesh or not,
  \<^verbatim>\<open>SetSelectedBoneNames\<close> on an editor with a preview component succeeds and stores
  one index per name: entry \<open>i\<close> is \<^verbatim>\<open>GetBoneIndex\<close> of name \<open>i\<close>, so a name the engine
  answers with \<open>INDEX_NONE\<close> is stored as \<open>INDEX_NONE\<close> and not skipped, the stored
  selection is as long as the input, and \<^verbatim>\<open>GetSelectedBoneNames\<close> then returns a list of
  that length.
\<close>

theorem SetSelectedBoneNames_one_index_per_name:
  assumes "skeletalMeshPreviewComponent s = Some c"
  shows "\<exists>s' c'. SetSelectedBoneNames E s inBoneNames = Inr s' \<and>
           skeletalMeshPreviewComponent s' = Some c' \<and>
           length (BonesOfInterest c') = length inBoneNames \<and>
           (\<forall>i < length inBoneNames.
              BonesOfInterest c' ! i = GetBoneIndex E (SkeletalMesh c) (inBoneNames ! i) \<and>
              (GetBoneIndex E (SkeletalMesh c) (inBoneNames ! i) = INDEX_NONE \<longrightarrow>
                 BonesOfInterest c' ! i = INDEX_NONE)) \<and>
           length (GetSelectedBoneNames E s') = length inBoneNames"
proof -
  let ?c' = "c\<lparr>BonesOfInterest := map (GetBoneIndex E (SkeletalMesh c)) inBoneNames\<rparr>"
  let ?s' = "s\<lparr>skeletalMeshPreviewComponent := Some ?c'\<rparr>"
  have run: "SetSelectedBoneNames E s inBoneNames = Inr ?s'"
    using assms by (rule SetSelectedBoneNames_Some)
  have comp: "skeletalMeshPreviewComponent ?s' = Some ?c'" by simp
  have names: "length (GetSelectedBoneNames E ?s') = length inBoneNames"
    by (simp add: GetSelectedBoneNames_Some [OF comp])
  show ?thesis
    using run comp names by (intro exI [of _ ?s'] exI [of _ ?c']) simp
qed

theorem SetSelectedBoneNames_one_index_per_name_witness:
  "skeletalMeshPreviewComponent exampleEditor = Some exampleComponent \<and>
   (\<exists>s' c'. SetSelectedBoneNames exampleEngine exampleEditor [''Spine_02'', ''Tail'', ''Root''] = Inr s' \<and>
      skeletalMeshPreviewComponent s' = Some c' \<and>
      BonesOfInterest c' = [2, INDEX_NONE, 0] \<and>
      length (GetSelectedBoneNames exampleEngine s') = 3)"
proof -
  have comp: "skeletalMeshPreviewComponent exampleEditor = Some exampleComponent"
    by (simp add: exampleEditor_def)
  from SetSelectedBoneNames_one_index_per_name [OF comp, of exampleEngine "[''Spine_02'', ''Tail'', ''Root'']"]
  obtain s' c' where run: "SetSelectedBoneNames exampleEngine exampleEditor [''Spine_02'', ''Tail'', ''Root''] = Inr s'"
    and c': "skeletalMeshPreviewComponent s' = Some c'"
    and len: "length (BonesOfInterest c') = 3"
    and nth: "\<forall>i < 3. BonesOfInterest c' ! i =
        GetBoneIndex exampleEngine (SkeletalMesh exampleComponent) ([''Spine_02'', ''Tail'', ''Root''] ! i)"
    and names: "length (GetSelectedBoneNames exampleEngine s') = 3"
    by auto
  have "BonesOfInterest c' ! 0 = 2" "BonesOfInterest c' ! 1 = INDEX_NONE" "BonesOfInterest c' ! 2 = 0"
    using nth by (simp_all add: exampleEngine_def exampleComponent_def exampleBoneIndex_def)
  then have "BonesOfInterest c' = [2, INDEX_NONE, 0]"
    using len by (intro nth_equalityI) (auto simp: less_Suc_eq numeral_3_eq_3 numeral_2_eq_2)
  then show ?thesis using comp run c' names by blast
qed

subsection \<open>The source object of the details view\<close>

lemma GetDetailsViewSourceObject_not_single:
  "\<not> bSingleBoneSelected s \<Longrightarrow> GetDetailsViewSourceObject E s = Inr (s, None)"
  by (simp add: GetDetailsViewSourceObject_def bSingleBoneSelected_def split: option.splits)

lemma GetDetailsViewSourceObject_single_returns:
  "bSingleBoneSelected s \<Longrightarrow> GetDetailsViewSourceObject E s = Inr (s', obj) \<Longrightarrow>
   obj = Some DetailsViewBonePtr"
  by (auto simp: GetDetailsViewSourceObject_def bSingleBoneSelected_def Let_def
      split: option.splits if_splits)

lemma GetDetailsViewSourceObject_defined_iff:
  "(\<exists>r. GetDetailsViewSourceObject E s = Inr r) \<longleftrightarrow> DetailsSourceDefined E s"
  by (auto simp: GetDetailsViewSourceObject_def DetailsSourceDefined_def Let_def
      split: option.splits if_splits)

lemma GetDetailsViewSourceObject_modified:
  assumes "skeletalMeshPreviewComponent s = Some c" "BonesOfInterest c = [boneIndex]"
    and "detailsViewBone s = Some b" "PreviewInstance c = Some f"
    and "f (GetBoneName E (SkeletalMesh c) boneIndex) = Some skeletalControl"
  shows "GetDetailsViewSourceObject E s =
     Inr (s\<lparr>detailsViewBone := Some
              (b\<lparr>BoneName := GetBoneName E (SkeletalMesh c) boneIndex,
                 ParentBoneName :=
                   GetParentBone E (SkeletalMesh c) (GetBoneName E (SkeletalMesh c) boneIndex),
                 BoneTransform :=
                   SetComponents (BoneTransform b) (Quaternion E (NodeRotation skeletalControl))
                     (NodeTranslation skeletalControl) (NodeScale skeletalControl)\<rparr>)\<rparr>,
          Some DetailsViewBonePtr)"
  using assms by (simp add: GetDetailsViewSourceObject_def Let_def)

lemma GetDetailsViewSourceObject_unmodified:
  assumes "skeletalMeshPreviewComponent s = Some c" "BonesOfInterest c = [boneIndex]"
    and "detailsViewBone s = Some b" "PreviewInstance c = Some f"
    and "f (GetBoneName E (SkeletalMesh c) boneIndex) = None"
    and "SkeletalMesh c = Some mesh"
    and "0 \<le> boneIndex" "nat boneIndex < length (GetRefBonePose E mesh)"
  shows "GetDetailsViewSourceObject E s =
     Inr (s\<lparr>detailsViewBone := Some
              (b\<lparr>BoneName := GetBoneName E (Some mesh) boneIndex,
                 ParentBoneName := GetParentBone E (Some mesh) (GetBoneName E (Some mesh) boneIndex),
                 BoneTransform := GetRefBonePose E mesh ! nat boneIndex\<rparr>)\<rparr>,
          Some DetailsViewBonePtr)"
  using assms by (simp add: GetDetailsViewSourceObject_def Let_def)

lemma GetDetailsViewSourceObject_frame:
  assumes r: "GetDetailsViewSourceObject E s = Inr (s', obj)"
  shows "\<exists>p. s' = s\<lparr>detailsViewBone := p\<rparr>"
proof (cases "bSingleBoneSelected s")
  case False
  with r GetDetailsViewSourceObject_not_single [OF False, of E] have "s' = s" by simp
  then have "s' = s\<lparr>detailsViewBone := detailsViewBone s\<rparr>" by simp
  then show ?thesis ..
next
  case True
  show ?thesis
    using r True
    by (auto simp: GetDetailsViewSourceObject_def bSingleBoneSelected_def Let_def
        split: option.splits if_splits)
qed

text \<open>
  What \<^verbatim>\<open>GetDetailsViewSourceObject\<close> returns: null, with nothing changed, whenever
  the preview component is absent or the number of bones of interest is not one;
  whatever it returns, it returns the proxy exactly when the component exists and one
  bone is selected, and null exactly when not; and with one bone selected it does
  return the proxy whenever the objects it dereferences are there.
\<close>

lemma GetDetailsViewSourceObject_proxy_iff_single_bone:
  "(\<not> bSingleBoneSelected s \<longrightarrow> GetDetailsViewSourceObject E s = Inr (s, None)) \<and>
   (bSingleBoneSelected s \<and> DetailsSourceDefined E s \<longrightarrow>
      (\<exists>s'. GetDetailsViewSourceObject E s = Inr (s', Some DetailsViewBonePtr))) \<and>
   (\<forall>s' obj. GetDetailsViewSourceObject E s = Inr (s', obj) \<longrightarrow>
      (obj = Some DetailsViewBonePtr \<longleftrightarrow> bSingleBoneSelected s) \<and>
      (obj = None \<longleftrightarrow> \<not> bSingleBoneSelected s))"
proof (intro conjI impI allI)
  assume "\<not> bSingleBoneSelected s"
  then show "GetDetailsViewSourceObject E s = Inr (s, None)"
    by (rule GetDetailsViewSourceObject_not_single)
next
  assume h: "bSingleBoneSelected s \<and> DetailsSourceDefined E s"
  then obtain s' obj where r: "GetDetailsViewSourceObject E s = Inr (s', obj)"
    using GetDetailsViewSourceObject_defined_iff [of E s] by auto
  with h have "obj = Some DetailsViewBonePtr"
    using GetDetailsViewSourceObject_single_returns by blast
  with r show "\<exists>s'. GetDetailsViewSourceObject E s = Inr (s', Some DetailsViewBonePtr)"
    by blast
next
  fix s' obj
  assume r: "GetDetailsViewSourceObject E s = Inr (s', obj)"
  show "obj = Some DetailsViewBonePtr \<longleftrightarrow> bSingleBoneSelected s"
  proof (cases "bSingleBoneSelected s")
    case True
    then show ?thesis using r GetDetailsViewSourceObject_single_returns by blast
  next
    case False
    then show ?thesis using r GetDetailsViewSourceObject_not_single [OF False, of E] by simp
  qed
  show "obj = None \<longleftrightarrow> \<not> bSingleBoneSelected s"
  proof (cases "bSingleBoneSelected s")
    case True
    then have "obj = Some DetailsViewBonePtr"
      using r GetDetailsViewSourceObject_single_returns by blast
    with True show ?thesis by simp
  next
    case False
    then show ?thesis using r GetDetailsViewSourceObject_not_single [OF False, of E] by simp
  qed
qed

lemma GetDetailsViewSourceObject_proxy_iff_single_bone_example:
  "bSingleBoneSelected (exampleEditorWith [2]) \<and>
   DetailsSourceDefined exampleEngine (exampleEditorWith [2]) \<and>
   (\<exists>s'. GetDetailsViewSourceObject exampleEngine (exampleEditorWith [2]) =
      Inr (s', Some DetailsViewBonePtr)) \<and>
   \<not> bSingleBoneSelected (exampleEditorWith []) \<and>
   GetDetailsViewSourceObject exampleEngine (exampleEditorWith []) =
     Inr (exampleEditorWith [], None) \<and>
   \<not> bSingleBoneSelected (exampleEditorWith [0, 2]) \<and>
   GetDetailsViewSourceObject exampleEngine (exampleEditorWith [0, 2]) =
     Inr (exampleEditorWith [0, 2], None)"
proof -
  have one: "bSingleBoneSelected (exampleEditorWith [2])"
    by (simp add: bSingleBoneSelected_def exampleEditorWith_def)
  have ok: "DetailsSourceDefined exampleEngine (exampleEditorWith [2])"
    by (simp add: DetailsSourceDefined_def exampleEditorWith_def exampleEditor_def
        exampleComponent_def exampleEngine_def exampleBoneName_def exampleRefPose_def)
  have none: "\<not> bSingleBoneSelected (exampleEditorWith [])"
    by (simp add: bSingleBoneSelected_def exampleEditorWith_def)
  have two: "\<not> bSingleBoneSelected (exampleEditorWith [0, 2])"
    by (simp add: bSingleBoneSelected_def exampleEditorWith_def)
  show ?thesis
    using one ok none two
      GetDetailsViewSourceObject_proxy_iff_single_bone [of "exampleEditorWith [2]" exampleEngine]
      GetDetailsViewSourceObject_proxy_iff_single_bone [of "exampleEditorWith []" exampleEngine]
      GetDetailsViewSourceObject_proxy_iff_single_bone [of "exampleEditorWith [0, 2]" exampleEngine]
    by blast
qed

text \<open>
  Claim C1 says that the proxy is returned if and only if the preview component
  exists and exactly one bone is selected, and null in every other case. The null
  cases and the "only if" hold (the lemma above). The "if" fails on the code: a tree
  selection of the one name Tail, which the preview mesh does not have, is stored as
  the single index \<open>INDEX_NONE\<close>; the component exists and one bone is selected, the
  bone has no skeletal control, and the source reads the reference pose at index
  \<open>- 1\<close>, outside the array, so nothing is returned and the tree's handler stops.
  Before a preview mesh is set the same path stops earlier, on the null preview instance.
\<close>

theorem GetDetailsViewSourceObject_unknown_bone_fails:
  "SetSelectedBoneNames exampleEngine exampleEditor [''Tail''] =
     Inr (exampleEditorWith [INDEX_NONE]) \<and>
   bSingleBoneSelected (exampleEditorWith [INDEX_NONE]) \<and>
   GetDetailsViewSourceObject exampleEngine (exampleEditorWith [INDEX_NONE]) =
     Inl IndexOutOfRange \<and>
   SkeletonTree_OnSelectionChanged exampleEngine (UserSelectsInTree exampleEditor [''Tail'']) =
     Inl IndexOutOfRange \<and>
   SkeletonTree_OnSelectionChanged exampleEngine (UserSelectsInTree exampleEditorBeforeMesh [''Root'']) =
     Inl NullDereference"
proof -
  have comp: "skeletalMeshPreviewComponent exampleEditor = Some exampleComponent"
    by (simp add: exampleEditor_def)
  have set: "SetSelectedBoneNames exampleEngine exampleEditor [''Tail''] =
      Inr (exampleEditorWith [INDEX_NONE])"
    using SetSelectedBoneNames_Some [OF comp, of exampleEngine "[''Tail'']"]
    by (simp add: exampleEditorWith_def exampleEngine_def exampleComponent_def exampleBoneIndex_def)
  have single: "bSingleBoneSelected (exampleEditorWith [INDEX_NONE])"
    by (simp add: bSingleBoneSelected_def exampleEditorWith_def)
  have get: "GetDetailsViewSourceObject exampleEngine (exampleEditorWith [INDEX_NONE]) =
      Inl IndexOutOfRange"
    by (simp add: GetDetailsViewSourceObject_def exampleEditorWith_def exampleEditor_def
        exampleComponent_def exampleEngine_def exampleBoneName_def INDEX_NONE_def)
  let ?u = "UserSelectsInTree exampleEditor [''Tail'']"
  have u: "skeletonTree ?u = Some \<lparr>SelectedBoneNames = [''Tail''], OnSelectionChangedRaised = 1\<rparr>"
    "skeletalMeshPreviewComponent ?u = Some exampleComponent"
    by (simp_all add: UserSelectsInTree_def SSkeletonTree_UserSelect_def exampleEditor_def)
  have set_u: "SetSelectedBoneNames exampleEngine ?u [''Tail''] =
      Inr (?u\<lparr>skeletalMeshPreviewComponent :=
             Some (exampleComponent\<lparr>BonesOfInterest := [INDEX_NONE]\<rparr>)\<rparr>)"
    using SetSelectedBoneNames_Some [OF u(2), of exampleEngine "[''Tail'']"]
    by (simp add: exampleEngine_def exampleComponent_def exampleBoneIndex_def)
  have handler: "SkeletonTree_OnSelectionChanged exampleEngine ?u = Inl IndexOutOfRange"
    by (simp add: SkeletonTree_OnSelectionChanged_def u(1) SSkeletonTree_GetSelectedBoneNames_def
        set_u)
       (simp add: UserSelectsInTree_def exampleEditor_def RefreshDetailsView_def
        GetDetailsViewSourceObject_def exampleComponent_def exampleEngine_def
        exampleBoneName_def INDEX_NONE_def)
  let ?v = "UserSelectsInTree exampleEditorBeforeMesh [''Root'']"
  let ?c = "exampleComponent\<lparr>SkeletalMesh := None, PreviewInstance := None\<rparr>"
  have v: "skeletonTree ?v = Some \<lparr>SelectedBoneNames = [''Root''], OnSelectionChangedRaised = 1\<rparr>"
    "skeletalMeshPreviewComponent ?v = Some ?c"
    by (simp_all add: UserSelectsInTree_def SSkeletonTree_UserSelect_def
        exampleEditorBeforeMesh_def exampleEditor_def)
  have set_v: "SetSelectedBoneNames exampleEngine ?v [''Root''] =
      Inr (?v\<lparr>skeletalMeshPreviewComponent := Some (?c\<lparr>BonesOfInterest := [INDEX_NONE]\<rparr>)\<rparr>)"
    using SetSelectedBoneNames_Some [OF v(2), of exampleEngine "[''Root'']"]
    by (simp add: exampleEngine_def)
  have handler_v: "SkeletonTree_OnSelectionChanged exampleEngine ?v = Inl NullDereference"
    by (simp add: SkeletonTree_OnSelectionChanged_def v(1) SSkeletonTree_GetSelectedBoneNames_def
        set_v)
       (simp add: UserSelectsInTree_def exampleEditorBeforeMesh_def exampleEditor_def
        RefreshDetailsView_def GetDetailsViewSourceObject_def)
  show ?thesis
    using set single get handler handler_v by (intro conjI)
qed

text \<open>
  Claim C4. With exactly one bone selected, whenever \<^verbatim>\<open>GetDetailsViewSourceObject\<close>
  returns, it returns the proxy, and the proxy carries the name the component gives
  the selected index, the parent the component gives that name, and a transform made
  of the rotation (as a quaternion), translation and scale of the bone's skeletal
  control if the preview instance has one, and otherwise the entry of the mesh's
  reference pose at the bone's index. Nothing else of the editor changes, and it does
  return whenever the objects it dereferences are there.
\<close>

theorem GetDetailsViewSourceObject_proxy_content:
  assumes "skeletalMeshPreviewComponent s = Some c" and "BonesOfInterest c = [boneIndex]"
  shows "(DetailsSourceDefined E s \<longrightarrow> (\<exists>r. GetDetailsViewSourceObject E s = Inr r)) \<and>
    (\<forall>s' obj. GetDetailsViewSourceObject E s = Inr (s', obj) \<longrightarrow>
       obj = Some DetailsViewBonePtr \<and>
       (\<exists>p f. s' = s\<lparr>detailsViewBone := Some p\<rparr> \<and> PreviewInstance c = Some f \<and>
          BoneName p = GetBoneName E (SkeletalMesh c) boneIndex \<and>
          ParentBoneName p = GetParentBone E (SkeletalMesh c) (BoneName p) \<and>
          (case f (BoneName p) of
             Some skeletalControl \<Rightarrow>
               Rotation (BoneTransform p) = Quaternion E (NodeRotation skeletalControl) \<and>
               Translation (BoneTransform p) = NodeTranslation skeletalControl \<and>
               Scale3D (BoneTransform p) = NodeScale skeletalControl
           | None \<Rightarrow>
               (\<exists>mesh. SkeletalMesh c = Some mesh \<and> 0 \<le> boneIndex \<and>
                  nat boneIndex < length (GetRefBonePose E mesh) \<and>
                  BoneTransform p = GetRefBonePose E mesh ! nat boneIndex))))"
proof (intro conjI impI allI)
  assume "DetailsSourceDefined E s"
  then show "\<exists>r. GetDetailsViewSourceObject E s = Inr r"
    using GetDetailsViewSourceObject_defined_iff [of E s] by blast
next
  fix s' obj
  assume r: "GetDetailsViewSourceObject E s = Inr (s', obj)"
  have single: "bSingleBoneSelected s"
    using assms by (simp add: bSingleBoneSelected_def)
  show "obj = Some DetailsViewBonePtr"
    using single r by (rule GetDetailsViewSourceObject_single_returns)
  have "DetailsSourceDefined E s"
    using r GetDetailsViewSourceObject_defined_iff [of E s] by blast
  then obtain b f where b: "detailsViewBone s = Some b" and f: "PreviewInstance c = Some f"
    and rest: "f (GetBoneName E (SkeletalMesh c) boneIndex) \<noteq> None \<or>
      (\<exists>mesh. SkeletalMesh c = Some mesh \<and> 0 \<le> boneIndex \<and>
         nat boneIndex < length (GetRefBonePose E mesh))"
    using assms by (auto simp: DetailsSourceDefined_def split: option.splits)
  let ?n = "GetBoneName E (SkeletalMesh c) boneIndex"
  show "\<exists>p f. s' = s\<lparr>detailsViewBone := Some p\<rparr> \<and> PreviewInstance c = Some f \<and>
          BoneName p = GetBoneName E (SkeletalMesh c) boneIndex \<and>
          ParentBoneName p = GetParentBone E (SkeletalMesh c) (BoneName p) \<and>
          (case f (BoneName p) of
             Some skeletalControl \<Rightarrow>
               Rotation (BoneTransform p) = Quaternion E (NodeRotation skeletalControl) \<and>
               Translation (BoneTransform p) = NodeTranslation skeletalControl \<and>
               Scale3D (BoneTransform p) = NodeScale skeletalControl
           | None \<Rightarrow>
               (\<exists>mesh. SkeletalMesh c = Some mesh \<and> 0 \<le> boneIndex \<and>
                  nat boneIndex < length (GetRefBonePose E mesh) \<and>
                  BoneTransform p = GetRefBonePose E mesh ! nat boneIndex))"
  proof (cases "f ?n")
    case (Some skeletalControl)
    let ?p = "b\<lparr>BoneName := ?n, ParentBoneName := GetParentBone E (SkeletalMesh c) ?n,
                BoneTransform := SetComponents (BoneTransform b)
                  (Quaternion E (NodeRotation skeletalControl))
                  (NodeTranslation skeletalControl) (NodeScale skeletalControl)\<rparr>"
    have "s' = s\<lparr>detailsViewBone := Some ?p\<rparr>"
      using r GetDetailsViewSourceObject_modified [OF assms b f Some] by simp
    moreover have "f (BoneName ?p) = Some skeletalControl" using Some by simp
    ultimately show ?thesis
      using f by (intro exI [of _ ?p] exI [of _ f]) (simp add: SetComponents_def)
  next
    case None
    with rest obtain mesh where m: "SkeletalMesh c = Some mesh" and lo: "0 \<le> boneIndex"
      and hi: "nat boneIndex < length (GetRefBonePose E mesh)" by blast
    let ?p = "b\<lparr>BoneName := GetBoneName E (Some mesh) boneIndex,
                ParentBoneName := GetParentBone E (Some mesh) (GetBoneName E (Some mesh) boneIndex),
                BoneTransform := GetRefBonePose E mesh ! nat boneIndex\<rparr>"
    have "s' = s\<lparr>detailsViewBone := Some ?p\<rparr>"
      using r GetDetailsViewSourceObject_unmodified [OF assms b f None m lo hi] by simp
    moreover have "f (BoneName ?p) = None" using None m by simp
    ultimately show ?thesis
      using f m lo hi by (intro exI [of _ ?p] exI [of _ f]) simp
  qed
qed

theorem GetDetailsViewSourceObject_proxy_content_witness:
  "skeletalMeshPreviewComponent (exampleEditorWith [1]) =
     Some (exampleComponent\<lparr>BonesOfInterest := [1]\<rparr>) \<and>
   DetailsSourceDefined exampleEngine (exampleEditorWith [1]) \<and>
   (\<exists>s' p. GetDetailsViewSourceObject exampleEngine (exampleEditorWith [1]) =
        Inr (s', Some DetailsViewBonePtr) \<and>
      detailsViewBone s' = Some p \<and>
      BoneName p = ''Spine_01'' \<and> ParentBoneName p = ''Root'' \<and>
      Rotation (BoneTransform p) = 105 \<and> Translation (BoneTransform p) = 21 \<and>
      Scale3D (BoneTransform p) = 2) \<and>
   skeletalMeshPreviewComponent (exampleEditorWith [2]) =
     Some (exampleComponent\<lparr>BonesOfInterest := [2]\<rparr>) \<and>
   DetailsSourceDefined exampleEngine (exampleEditorWith [2]) \<and>
   (\<exists>s' p. GetDetailsViewSourceObject exampleEngine (exampleEditorWith [2]) =
        Inr (s', Some DetailsViewBonePtr) \<and>
      detailsViewBone s' = Some p \<and>
      BoneName p = ''Spine_02'' \<and> ParentBoneName p = ''Spine_01'' \<and>
      BoneTransform p = \<lparr>Rotation = 0, Translation = 30, Scale3D = 1\<rparr>)"
proof -
  let ?c1 = "exampleComponent\<lparr>BonesOfInterest := [1]\<rparr>"
  let ?c2 = "exampleComponent\<lparr>BonesOfInterest := [2]\<rparr>"
  let ?f = "[''Spine_01'' \<mapsto> \<lparr>NodeRotation = 5::nat, NodeTranslation = 21::nat, NodeScale = 2\<rparr>]"
  have comp1: "skeletalMeshPreviewComponent (exampleEditorWith [1]) = Some ?c1"
    by (simp add: exampleEditorWith_def)
  have comp2: "skeletalMeshPreviewComponent (exampleEditorWith [2]) = Some ?c2"
    by (simp add: exampleEditorWith_def)
  have boi1: "BonesOfInterest ?c1 = [1]" and boi2: "BonesOfInterest ?c2 = [2]" by simp_all
  have ok1: "DetailsSourceDefined exampleEngine (exampleEditorWith [1])"
    by (simp add: DetailsSourceDefined_def exampleEditorWith_def exampleEditor_def
        exampleComponent_def exampleEngine_def exampleBoneName_def exampleRefPose_def)
  have ok2: "DetailsSourceDefined exampleEngine (exampleEditorWith [2])"
    by (simp add: DetailsSourceDefined_def exampleEditorWith_def exampleEditor_def
        exampleComponent_def exampleEngine_def exampleBoneName_def exampleRefPose_def)
  note th1 = GetDetailsViewSourceObject_proxy_content [OF comp1 boi1, of exampleEngine]
  note th2 = GetDetailsViewSourceObject_proxy_content [OF comp2 boi2, of exampleEngine]
  have inst: "PreviewInstance ?c1 = Some ?f" "PreviewInstance ?c2 = Some ?f"
    by (simp_all add: exampleComponent_def)
  have n1: "GetBoneName exampleEngine (SkeletalMesh ?c1) 1 = ''Spine_01''"
    and n2: "GetBoneName exampleEngine (SkeletalMesh ?c2) 2 = ''Spine_02''"
    and p1: "GetParentBone exampleEngine (SkeletalMesh ?c1) ''Spine_01'' = ''Root''"
    and p2: "GetParentBone exampleEngine (SkeletalMesh ?c2) ''Spine_02'' = ''Spine_01''"
    and q: "Quaternion exampleEngine 5 = 105"
    and m: "SkeletalMesh ?c2 = Some 7"
    and pose: "GetRefBonePose exampleEngine 7 ! nat 2 = \<lparr>Rotation = 0, Translation = 30, Scale3D = 1\<rparr>"
    by (simp_all add: exampleEngine_def exampleComponent_def exampleBoneName_def
        exampleBoneIndex_def exampleRefPose_def numeral_2_eq_2)
  from th1 ok1 obtain s1 obj1
    where r1: "GetDetailsViewSourceObject exampleEngine (exampleEditorWith [1]) = Inr (s1, obj1)"
    by fastforce
  from th1 r1 inst(1) obtain q1
    where o1: "obj1 = Some DetailsViewBonePtr" and s1: "detailsViewBone s1 = Some q1"
      and bn1: "BoneName q1 = GetBoneName exampleEngine (SkeletalMesh ?c1) 1"
      and pn1: "ParentBoneName q1 = GetParentBone exampleEngine (SkeletalMesh ?c1) (BoneName q1)"
      and t1: "case ?f (BoneName q1) of
             Some skeletalControl \<Rightarrow>
               Rotation (BoneTransform q1) = Quaternion exampleEngine (NodeRotation skeletalControl) \<and>
               Translation (BoneTransform q1) = NodeTranslation skeletalControl \<and>
               Scale3D (BoneTransform q1) = NodeScale skeletalControl
           | None \<Rightarrow>
               (\<exists>mesh. SkeletalMesh ?c1 = Some mesh \<and> 0 \<le> (1::int) \<and>
                  nat 1 < length (GetRefBonePose exampleEngine mesh) \<and>
                  BoneTransform q1 = GetRefBonePose exampleEngine mesh ! nat 1)"
    by fastforce
  have first: "BoneName q1 = ''Spine_01'' \<and> ParentBoneName q1 = ''Root'' \<and>
      Rotation (BoneTransform q1) = 105 \<and> Translation (BoneTransform q1) = 21 \<and>
      Scale3D (BoneTransform q1) = 2"
    using bn1 pn1 t1 n1 p1 q by simp
  from th2 ok2 obtain s2 obj2
    where r2: "GetDetailsViewSourceObject exampleEngine (exampleEditorWith [2]) = Inr (s2, obj2)"
    by fastforce
  from th2 r2 inst(2) obtain q2
    where o2: "obj2 = Some DetailsViewBonePtr" and s2: "detailsViewBone s2 = Some q2"
      and bn2: "BoneName q2 = GetBoneName exampleEngine (SkeletalMesh ?c2) 2"
      and pn2: "ParentBoneName q2 = GetParentBone exampleEngine (SkeletalMesh ?c2) (BoneName q2)"
      and t2: "case ?f (BoneName q2) of
             Some skeletalControl \<Rightarrow>
               Rotation (BoneTransform q2) = Quaternion exampleEngine (NodeRotation skeletalControl) \<and>
               Translation (BoneTransform q2) = NodeTranslation skeletalControl \<and>
               Scale3D (BoneTransform q2) = NodeScale skeletalControl
           | None \<Rightarrow>
               (\<exists>mesh. SkeletalMesh ?c2 = Some mesh \<and> 0 \<le> (2::int) \<and>
                  nat 2 < length (GetRefBonePose exampleEngine mesh) \<and>
                  BoneTransform q2 = GetRefBonePose exampleEngine mesh ! nat 2)"
    by fastforce
  have second: "BoneName q2 = ''Spine_02'' \<and> ParentBoneName q2 = ''Spine_01'' \<and>
      BoneTransform q2 = \<lparr>Rotation = 0, Translation = 30, Scale3D = 1\<rparr>"
    using bn2 pn2 t2 n2 p2 m pose by auto
  show ?thesis
    using comp1 ok1 r1 o1 s1 first comp2 ok2 r2 o2 s2 second by blast
qed

subsection \<open>Setting the preview mesh\<close>

text \<open>
  Claim C2. For a mesh that is not compatible with the skeleton of the current pose,
  \<^verbatim>\<open>SetPreviewSkeletalMesh\<close> returns without an error and leaves the whole editor as
  it was: the preview component and its mesh, the preview scene and the viewport client.
\<close>

theorem SetPreviewSkeletalMesh_incompatible_unchanged:
  assumes "currentPose s = Some pose" and "Skeleton pose = Some skeleton"
    and "\<not> IsCompatibleMesh E skeleton mesh"
  shows "SetPreviewSkeletalMesh E s (Some mesh) = Inr s"
  using assms by (simp add: SetPreviewSkeletalMesh_def)

theorem SetPreviewSkeletalMesh_incompatible_unchanged_witness:
  "currentPose exampleEditor = Some \<lparr>Skeleton = Some 1\<rparr> \<and>
   Skeleton \<lparr>Skeleton = Some 1\<rparr> = Some 1 \<and>
   \<not> IsCompatibleMesh exampleEngine 1 9 \<and>
   SetPreviewSkeletalMesh exampleEngine exampleEditor (Some 9) = Inr exampleEditor"
proof -
  have pose: "currentPose exampleEditor = Some \<lparr>Skeleton = Some 1\<rparr>"
    by (simp add: exampleEditor_def)
  have skeleton: "Skeleton \<lparr>Skeleton = Some 1\<rparr> = Some 1" by simp
  have bad: "\<not> IsCompatibleMesh exampleEngine 1 9" by (simp add: exampleEngine_def)
  show ?thesis
    using pose skeleton bad SetPreviewSkeletalMesh_incompatible_unchanged [OF pose skeleton bad]
    by simp
qed

text \<open>
  Claim C5, as stated, fails: mesh 7 is compatible and is already the component's
  mesh, and the call only initialises the animation again; the preview scene gets no
  component and the viewport client hears nothing.
\<close>

theorem SetPreviewSkeletalMesh_current_mesh_counterexample:
  "IsCompatibleMesh exampleEngine 1 7 \<and>
   SetPreviewSkeletalMesh exampleEngine exampleEditor (Some 7) =
     Inr (exampleEditor\<lparr>skeletalMeshPreviewComponent :=
            Some (InitAnim exampleEngine exampleComponent True)\<rparr>) \<and>
   previewScene (exampleEditor\<lparr>skeletalMeshPreviewComponent :=
            Some (InitAnim exampleEngine exampleComponent True)\<rparr>) = previewScene exampleEditor \<and>
   viewportClientWeakPtr (exampleEditor\<lparr>skeletalMeshPreviewComponent :=
            Some (InitAnim exampleEngine exampleComponent True)\<rparr>) = viewportClientWeakPtr exampleEditor"
  by (simp add: SetPreviewSkeletalMesh_def exampleEditor_def exampleComponent_def)
     (simp add: exampleEngine_def)

text \<open>
  Claim C5, amended. For a mesh compatible with the skeleton of the current pose, on
  an editor that has its preview component: if the mesh is not the one the component
  has, \<^verbatim>\<open>SetPreviewSkeletalMesh\<close> sets it on the component, adds the component to the
  preview scene and tells the viewport client, if there is one, of the component,
  changing nothing else; if it is the component's mesh already, the call initialises
  the component's animation again and changes nothing else.
\<close>

theorem SetPreviewSkeletalMesh_compatible:
  assumes "currentPose s = Some pose" and "Skeleton pose = Some skeleton"
    and "IsCompatibleMesh E skeleton mesh"
    and "skeletalMeshPreviewComponent s = Some c"
  shows "(SkeletalMesh c \<noteq> Some mesh \<longrightarrow>
      (\<exists>s' c'. SetPreviewSkeletalMesh E s (Some mesh) = Inr s' \<and>
         skeletalMeshPreviewComponent s' = Some c' \<and> c' = SetSkeletalMesh c mesh \<and>
         SkeletalMesh c' = Some mesh \<and>
         AddedComponents (previewScene s') =
           AddedComponents (previewScene s) @ [PreviewComponentPtr] \<and>
         viewportClientWeakPtr s' =
           map_option (\<lambda>vc. vc\<lparr>SkeletalMeshPreviewComponent := Some PreviewComponentPtr\<rparr>)
             (viewportClientWeakPtr s) \<and>
         currentPose s' = currentPose s \<and> detailsViewBone s' = detailsViewBone s \<and>
         skeletonTree s' = skeletonTree s \<and> viewport s' = viewport s \<and>
         detailsView s' = detailsView s)) \<and>
    (SkeletalMesh c = Some mesh \<longrightarrow>
       SetPreviewSkeletalMesh E s (Some mesh) =
         Inr (s\<lparr>skeletalMeshPreviewComponent := Some (InitAnim E c True)\<rparr>))"
  using assms
  by (cases "viewportClientWeakPtr s")
     (auto simp: SetPreviewSkeletalMesh_def SetSkeletalMesh_def AddComponent_def
        SetSkeletalMeshPreviewComponent_def)

theorem SetPreviewSkeletalMesh_compatible_witness:
  "currentPose exampleEditorBeforeMesh = Some \<lparr>Skeleton = Some 1\<rparr> \<and>
   IsCompatibleMesh exampleEngine 1 7 \<and>
   (\<exists>s' c' vc'. SetPreviewSkeletalMesh exampleEngine exampleEditorBeforeMesh (Some 7) = Inr s' \<and>
      skeletalMeshPreviewComponent s' = Some c' \<and> SkeletalMesh c' = Some 7 \<and>
      AddedComponents (previewScene s') = [PreviewComponentPtr] \<and>
      viewportClientWeakPtr s' = Some vc' \<and>
      SkeletalMeshPreviewComponent vc' = Some PreviewComponentPtr)"
proof -
  let ?c = "exampleComponent\<lparr>SkeletalMesh := None, PreviewInstance := None\<rparr>"
  have pose: "currentPose exampleEditorBeforeMesh = Some \<lparr>Skeleton = Some 1\<rparr>"
    by (simp add: exampleEditorBeforeMesh_def exampleEditor_def)
  have skeleton: "Skeleton \<lparr>Skeleton = Some 1\<rparr> = Some 1" by simp
  have good: "IsCompatibleMesh exampleEngine 1 7" by (simp add: exampleEngine_def)
  have comp: "skeletalMeshPreviewComponent exampleEditorBeforeMesh = Some ?c"
    by (simp add: exampleEditorBeforeMesh_def)
  have other: "SkeletalMesh ?c \<noteq> Some 7" by simp
  from SetPreviewSkeletalMesh_compatible [OF pose skeleton good comp, THEN conjunct1, THEN mp, OF other]
  obtain s' c' where run: "SetPreviewSkeletalMesh exampleEngine exampleEditorBeforeMesh (Some 7) = Inr s'"
    and c': "skeletalMeshPreviewComponent s' = Some c'" "SkeletalMesh c' = Some 7"
    and scene: "AddedComponents (previewScene s') =
        AddedComponents (previewScene exampleEditorBeforeMesh) @ [PreviewComponentPtr]"
    and client: "viewportClientWeakPtr s' =
        map_option (\<lambda>vc. vc\<lparr>SkeletalMeshPreviewComponent := Some PreviewComponentPtr\<rparr>)
          (viewportClientWeakPtr exampleEditorBeforeMesh)"
    by (elim exE conjE)
  have "AddedComponents (previewScene s') = [PreviewComponentPtr]"
    using scene by (simp add: exampleEditorBeforeMesh_def)
  moreover have "viewportClientWeakPtr s' =
      Some \<lparr>SkeletalMeshPreviewComponent = Some PreviewComponentPtr, ClientSelectionChangedRaised = 0\<rparr>"
    using client by (simp add: exampleEditorBeforeMesh_def)
  ultimately show ?thesis
    using pose good run c' by (intro conjI exI) auto
qed

subsection \<open>The selection handlers\<close>


lemma RefreshDetailsView_Some:
  "detailsView s = Some dv \<Longrightarrow> GetDetailsViewSourceObject E s = Inr (s', obj) \<Longrightarrow>
   RefreshDetailsView E s = Inr (s'\<lparr>detailsView := Some (dv\<lparr>BoundObject := obj\<rparr>)\<rparr>)"
  by (simp add: RefreshDetailsView_def SetObject_def)

lemma RefreshDetailsView_Inr:
  assumes "RefreshDetailsView E s = Inr s'"
  shows "(detailsView s = None \<and> s' = s) \<or>
    (\<exists>dv s1 obj. detailsView s = Some dv \<and> GetDetailsViewSourceObject E s = Inr (s1, obj) \<and>
       s' = s1\<lparr>detailsView := Some (dv\<lparr>BoundObject := obj\<rparr>)\<rparr>)"
  using assms
  by (auto simp: RefreshDetailsView_def SetObject_def split: option.splits sum.splits)

lemma RefreshDetailsView_returns_iff:
  "(\<exists>s'. RefreshDetailsView E s = Inr s') \<longleftrightarrow> detailsView s = None \<or> DetailsSourceDefined E s"
proof (cases "detailsView s")
  case None
  then show ?thesis by (simp add: RefreshDetailsView_def)
next
  case (Some dv)
  have "(\<exists>s'. RefreshDetailsView E s = Inr s') \<longleftrightarrow> (\<exists>r. GetDetailsViewSourceObject E s = Inr r)"
    using Some by (auto simp: RefreshDetailsView_def split: sum.splits)
  then show ?thesis using Some GetDetailsViewSourceObject_defined_iff [of E s] by simp
qed

lemma RefreshDetailsView_shape:
  assumes "RefreshDetailsView E s = Inr s'"
  shows "\<exists>p. s' = s\<lparr>detailsViewBone := p,
             detailsView := map_option (\<lambda>dv. dv\<lparr>BoundObject :=
               if bSingleBoneSelected s then Some DetailsViewBonePtr else None\<rparr>) (detailsView s)\<rparr> \<and>
           (detailsView s = None \<longrightarrow> p = detailsViewBone s)"
proof -
  from RefreshDetailsView_Inr [OF assms]
  consider (none) "detailsView s = None" "s' = s"
    | (some) dv s1 obj where "detailsView s = Some dv"
        "GetDetailsViewSourceObject E s = Inr (s1, obj)"
        "s' = s1\<lparr>detailsView := Some (dv\<lparr>BoundObject := obj\<rparr>)\<rparr>"
    by auto
  then show ?thesis
  proof cases
    case none
    then show ?thesis by (intro exI [of _ "detailsViewBone s"]) simp
  next
    case some
    from GetDetailsViewSourceObject_frame [OF some(2)]
    obtain p where s1: "s1 = s\<lparr>detailsViewBone := p\<rparr>" by blast
    have obj: "obj = (if bSingleBoneSelected s then Some DetailsViewBonePtr else None)"
    proof (cases "bSingleBoneSelected s")
      case True
      then show ?thesis using some(2) GetDetailsViewSourceObject_single_returns by fastforce
    next
      case False
      then show ?thesis using some(2) GetDetailsViewSourceObject_not_single [OF False, of E] by simp
    qed
    show ?thesis using some(1,3) s1 obj by (intro exI [of _ p]) simp
  qed
qed

lemma SetComponents_eq:
  "SetComponents (t :: ('q, 'v) FTransform) q tr sc = \<lparr>Rotation = q, Translation = tr, Scale3D = sc\<rparr>"
  by (simp add: SetComponents_def)

lemma GetDetailsViewSourceObject_bone:
  assumes comp: "skeletalMeshPreviewComponent s = Some c"
    and boi: "BonesOfInterest c = [GetBoneIndex E (Some mesh) b]"
    and mesh: "SkeletalMesh c = Some mesh"
    and inst: "PreviewInstance c = Some f"
    and proxy: "detailsViewBone s = Some p0"
    and bone: "IsBoneOfMesh E mesh b"
  shows "GetDetailsViewSourceObject E s =
     Inr (s\<lparr>detailsViewBone := Some (BoneProxy E mesh f b)\<rparr>, Some DetailsViewBonePtr)"
proof -
  let ?i = "GetBoneIndex E (Some mesh) b"
  have name: "GetBoneName E (SkeletalMesh c) ?i = b"
    and lo: "0 \<le> ?i" and hi: "nat ?i < length (GetRefBonePose E mesh)"
    using bone mesh by (simp_all add: IsBoneOfMesh_def)
  show ?thesis
  proof (cases "f b")
    case (Some skeletalControl)
    then have "f (GetBoneName E (SkeletalMesh c) ?i) = Some skeletalControl" using name by simp
    from GetDetailsViewSourceObject_modified [OF comp boi proxy inst this]
    show ?thesis using Some name mesh by (simp add: BoneProxy_def SetComponents_eq)
  next
    case None
    then have "f (GetBoneName E (SkeletalMesh c) ?i) = None" using name by simp
    from GetDetailsViewSourceObject_unmodified [OF comp boi proxy inst this mesh lo hi]
    show ?thesis using None name mesh by (simp add: BoneProxy_def)
  qed
qed

lemma SkeletonTree_OnSelectionChanged_bone:
  assumes tree: "skeletonTree s = Some tree" and sel: "SelectedBoneNames tree = [b]"
    and comp: "skeletalMeshPreviewComponent s = Some c"
    and mesh: "SkeletalMesh c = Some mesh"
    and inst: "PreviewInstance c = Some f"
    and proxy: "detailsViewBone s = Some p0"
    and dv: "detailsView s = Some dv"
    and bone: "IsBoneOfMesh E mesh b"
  shows "SkeletonTree_OnSelectionChanged E s =
     Inr (s\<lparr>skeletalMeshPreviewComponent :=
              Some (c\<lparr>BonesOfInterest := [GetBoneIndex E (Some mesh) b]\<rparr>),
            viewport := map_option Refresh (viewport s),
            detailsViewBone := Some (BoneProxy E mesh f b),
            detailsView := Some (dv\<lparr>BoundObject := Some DetailsViewBonePtr\<rparr>)\<rparr>)"
proof -
  let ?c1 = "c\<lparr>BonesOfInterest := [GetBoneIndex E (Some mesh) b]\<rparr>"
  let ?s1 = "s\<lparr>skeletalMeshPreviewComponent := Some ?c1\<rparr>"
  let ?s2 = "?s1\<lparr>viewport := map_option Refresh (viewport s)\<rparr>"
  have set: "SetSelectedBoneNames E s (SSkeletonTree_GetSelectedBoneNames tree) = Inr ?s1"
    using SetSelectedBoneNames_Some [OF comp, of E "[b]"] sel mesh
    by (simp add: SSkeletonTree_GetSelectedBoneNames_def)
  have vp: "(case viewport ?s1 of None \<Rightarrow> ?s1 | Some v \<Rightarrow> ?s1\<lparr>viewport := Some (Refresh v)\<rparr>) = ?s2"
    by (cases "viewport s") simp_all
  have get: "GetDetailsViewSourceObject E ?s2 =
      Inr (?s2\<lparr>detailsViewBone := Some (BoneProxy E mesh f b)\<rparr>, Some DetailsViewBonePtr)"
    by (rule GetDetailsViewSourceObject_bone [where c = ?c1 and ?p0.0 = p0])
       (simp_all add: mesh inst proxy bone)
  have dv2: "detailsView ?s2 = Some dv" using dv by simp
  have "SkeletonTree_OnSelectionChanged E s = RefreshDetailsView E ?s2"
    unfolding SkeletonTree_OnSelectionChanged_def using tree set vp by simp
  also have "\<dots> = Inr (?s2\<lparr>detailsViewBone := Some (BoneProxy E mesh f b),
      detailsView := Some (dv\<lparr>BoundObject := Some DetailsViewBonePtr\<rparr>)\<rparr>)"
    using RefreshDetailsView_Some [OF dv2 get] by simp
  finally show ?thesis by simp
qed

lemma Viewport_OnSelectionChanged_bone:
  assumes tree: "skeletonTree s = Some tree"
    and comp: "skeletalMeshPreviewComponent s = Some c"
    and boi: "BonesOfInterest c = [GetBoneIndex E (Some mesh) b]"
    and mesh: "SkeletalMesh c = Some mesh"
    and inst: "PreviewInstance c = Some f"
    and proxy: "detailsViewBone s = Some p0"
    and dv: "detailsView s = Some dv"
    and bone: "IsBoneOfMesh E mesh b"
  shows "Viewport_OnSelectionChanged E s =
     Inr (s\<lparr>skeletonTree := Some (tree\<lparr>SelectedBoneNames := [b]\<rparr>),
            detailsViewBone := Some (BoneProxy E mesh f b),
            detailsView := Some (dv\<lparr>BoundObject := Some DetailsViewBonePtr\<rparr>)\<rparr>)"
proof -
  let ?s1 = "s\<lparr>skeletonTree := Some (tree\<lparr>SelectedBoneNames := [b]\<rparr>)\<rparr>"
  have names: "GetSelectedBoneNames E s = [b]"
    using GetSelectedBoneNames_Some [OF comp, of E] boi mesh bone by (simp add: IsBoneOfMesh_def)
  have get: "GetDetailsViewSourceObject E ?s1 =
      Inr (?s1\<lparr>detailsViewBone := Some (BoneProxy E mesh f b)\<rparr>, Some DetailsViewBonePtr)"
    by (rule GetDetailsViewSourceObject_bone [where c = c and ?p0.0 = p0])
       (simp_all add: comp boi mesh inst proxy bone)
  have dv1: "detailsView ?s1 = Some dv" using dv by simp
  have "Viewport_OnSelectionChanged E s = RefreshDetailsView E ?s1"
    unfolding Viewport_OnSelectionChanged_def
    using tree names by (simp add: SSkeletonTree_SetSelectedBoneNames_def)
  also have "\<dots> = Inr (?s1\<lparr>detailsViewBone := Some (BoneProxy E mesh f b),
      detailsView := Some (dv\<lparr>BoundObject := Some DetailsViewBonePtr\<rparr>)\<rparr>)"
    using RefreshDetailsView_Some [OF dv1 get] by simp
  finally show ?thesis by simp
qed

lemma skeletalMeshPreviewComponent_update_same:
  "skeletalMeshPreviewComponent s = c \<Longrightarrow> s\<lparr>skeletalMeshPreviewComponent := c\<rparr> = s"
  by (cases s) simp

lemma SetSelectedBoneNames_eq:
  "SetSelectedBoneNames E s names =
     Inr (s\<lparr>skeletalMeshPreviewComponent :=
            map_option (\<lambda>c. c\<lparr>BonesOfInterest := map (GetBoneIndex E (SkeletalMesh c)) names\<rparr>)
              (skeletalMeshPreviewComponent s)\<rparr>)"
proof (cases "skeletalMeshPreviewComponent s")
  case None
  then show ?thesis
    using SetSelectedBoneNames_None [OF None, of E names]
    by (simp add: skeletalMeshPreviewComponent_update_same)
next
  case (Some c0)
  then show ?thesis using SetSelectedBoneNames_Some [OF Some, of E names] by simp
qed

lemma bSingleBoneSelected_frame:
  "bSingleBoneSelected (s\<lparr>skeletonTree := t\<rparr>) = bSingleBoneSelected s"
  "bSingleBoneSelected (s\<lparr>viewport := v\<rparr>) = bSingleBoneSelected s"
  by (simp_all add: bSingleBoneSelected_def)

lemma DetailsSourceDefined_frame:
  "DetailsSourceDefined E (s\<lparr>skeletonTree := t\<rparr>) = DetailsSourceDefined E s"
  "DetailsSourceDefined E (s\<lparr>viewport := v\<rparr>) = DetailsSourceDefined E s"
  by (simp_all add: DetailsSourceDefined_def split: option.splits)

lemma skeletonTree_update_same:
  "skeletonTree s = t \<Longrightarrow> s\<lparr>skeletonTree := t\<rparr> = s"
  by (cases s) simp

lemma viewport_update_same:
  "viewport s = v \<Longrightarrow> s\<lparr>viewport := v\<rparr> = s"
  by (cases s) simp

lemma Viewport_OnSelectionChanged_unfold:
  "Viewport_OnSelectionChanged E s =
     RefreshDetailsView E
       (s\<lparr>skeletonTree :=
            map_option (\<lambda>t. t\<lparr>SelectedBoneNames := GetSelectedBoneNames E s\<rparr>) (skeletonTree s)\<rparr>)"
proof (cases "skeletonTree s")
  case None
  then show ?thesis
    by (simp add: Viewport_OnSelectionChanged_def skeletonTree_update_same)
next
  case (Some tree)
  then show ?thesis
    by (simp add: Viewport_OnSelectionChanged_def SSkeletonTree_SetSelectedBoneNames_def)
qed

lemma Viewport_OnSelectionChanged_shape:
  assumes "Viewport_OnSelectionChanged E s = Inr s'"
  shows "\<exists>p. s' = s\<lparr>skeletonTree :=
               map_option (\<lambda>t. t\<lparr>SelectedBoneNames := GetSelectedBoneNames E s\<rparr>) (skeletonTree s),
             detailsViewBone := p,
             detailsView := map_option (\<lambda>dv. dv\<lparr>BoundObject :=
               if bSingleBoneSelected s then Some DetailsViewBonePtr else None\<rparr>) (detailsView s)\<rparr> \<and>
           (detailsView s = None \<longrightarrow> p = detailsViewBone s)"
  using RefreshDetailsView_shape [OF assms [unfolded Viewport_OnSelectionChanged_unfold]]
  by (simp add: bSingleBoneSelected_frame)

lemma Viewport_OnSelectionChanged_returns_iff:
  "(\<exists>s'. Viewport_OnSelectionChanged E s = Inr s') \<longleftrightarrow>
     detailsView s = None \<or> DetailsSourceDefined E s"
  unfolding Viewport_OnSelectionChanged_unfold RefreshDetailsView_returns_iff
  by (simp add: DetailsSourceDefined_frame)

lemma SkeletonTree_OnSelectionChanged_unfold:
  assumes "skeletonTree s = Some tree"
    and "SetSelectedBoneNames E s (SelectedBoneNames tree) = Inr s1"
  shows "SkeletonTree_OnSelectionChanged E s =
     RefreshDetailsView E (s1\<lparr>viewport := map_option Refresh (viewport s1)\<rparr>)"
proof (cases "viewport s1")
  case None
  then show ?thesis
    using assms
    by (simp add: SkeletonTree_OnSelectionChanged_def SSkeletonTree_GetSelectedBoneNames_def
        viewport_update_same)
next
  case (Some v)
  then show ?thesis
    using assms
    by (simp add: SkeletonTree_OnSelectionChanged_def SSkeletonTree_GetSelectedBoneNames_def)
qed

text \<open>The preview component after the tree's handler: the names' indices are its bones of interest.\<close>

lemma SkeletonTree_OnSelectionChanged_unfold':
  assumes "skeletonTree s = Some tree"
  shows "SkeletonTree_OnSelectionChanged E s =
     RefreshDetailsView E
       (s\<lparr>skeletalMeshPreviewComponent :=
            map_option (\<lambda>c. c\<lparr>BonesOfInterest :=
              map (GetBoneIndex E (SkeletalMesh c)) (SelectedBoneNames tree)\<rparr>)
              (skeletalMeshPreviewComponent s),
          viewport := map_option Refresh (viewport s)\<rparr>)"
  using SkeletonTree_OnSelectionChanged_unfold [OF assms SetSelectedBoneNames_eq] by simp

lemma SkeletonTree_OnSelectionChanged_tree:
  assumes "SkeletonTree_OnSelectionChanged E s = Inr s'"
  shows "\<exists>tree. skeletonTree s = Some tree"
  using assms by (cases "skeletonTree s") (simp_all add: SkeletonTree_OnSelectionChanged_def)

lemma SkeletonTree_OnSelectionChanged_fields:
  assumes run: "SkeletonTree_OnSelectionChanged E s = Inr s'" and tree: "skeletonTree s = Some tree"
  shows "skeletonTree s' = skeletonTree s"
    and "viewportClientWeakPtr s' = viewportClientWeakPtr s"
    and "previewScene s' = previewScene s"
    and "currentPose s' = currentPose s"
    and "viewport s' = map_option Refresh (viewport s)"
    and "detailsView s = None \<longrightarrow> detailsView s' = None \<and> detailsViewBone s' = detailsViewBone s"
    and "skeletalMeshPreviewComponent s' =
       map_option (\<lambda>c. c\<lparr>BonesOfInterest :=
         map (GetBoneIndex E (SkeletalMesh c)) (SelectedBoneNames tree)\<rparr>)
         (skeletalMeshPreviewComponent s)"
  using RefreshDetailsView_shape [OF run [unfolded SkeletonTree_OnSelectionChanged_unfold' [OF tree]]]
  by auto

lemma Viewport_OnSelectionChanged_fields:
  assumes run: "Viewport_OnSelectionChanged E s = Inr s'"
  shows "skeletalMeshPreviewComponent s' = skeletalMeshPreviewComponent s"
    and "viewportClientWeakPtr s' = viewportClientWeakPtr s"
    and "previewScene s' = previewScene s"
    and "currentPose s' = currentPose s"
    and "viewport s' = viewport s"
    and "skeletonTree s' =
        map_option (\<lambda>t. t\<lparr>SelectedBoneNames := GetSelectedBoneNames E s\<rparr>) (skeletonTree s)"
    and "detailsView s = None \<longrightarrow> detailsView s' = None \<and> detailsViewBone s' = detailsViewBone s"
    and "detailsView s' =
        map_option (\<lambda>dv. dv\<lparr>BoundObject :=
          if bSingleBoneSelected s then Some DetailsViewBonePtr else None\<rparr>) (detailsView s)"
  using Viewport_OnSelectionChanged_shape [OF run] by auto

lemma DetailsSourceDefined_no_component:
  "skeletalMeshPreviewComponent s = None \<Longrightarrow> DetailsSourceDefined E s"
  by (simp add: DetailsSourceDefined_def)

lemma SkeletonTree_OnSelectionChanged_returns:
  assumes tree: "skeletonTree s = Some tree"
    and ok: "detailsView s = None \<or> skeletalMeshPreviewComponent s = None \<or>
      DetailsSourceDefined E
        (s\<lparr>skeletalMeshPreviewComponent :=
            map_option (\<lambda>c. c\<lparr>BonesOfInterest :=
              map (GetBoneIndex E (SkeletalMesh c)) (SelectedBoneNames tree)\<rparr>)
              (skeletalMeshPreviewComponent s)\<rparr>)"
  shows "\<exists>s'. SkeletonTree_OnSelectionChanged E s = Inr s'"
proof -
  let ?s1 = "s\<lparr>skeletalMeshPreviewComponent :=
            map_option (\<lambda>c. c\<lparr>BonesOfInterest :=
              map (GetBoneIndex E (SkeletalMesh c)) (SelectedBoneNames tree)\<rparr>)
              (skeletalMeshPreviewComponent s)\<rparr>"
  have "skeletalMeshPreviewComponent s = None \<Longrightarrow> DetailsSourceDefined E ?s1"
    by (rule DetailsSourceDefined_no_component) simp
  with ok have "detailsView s = None \<or> DetailsSourceDefined E ?s1" by fast
  then have "detailsView (?s1\<lparr>viewport := map_option Refresh (viewport s)\<rparr>) = None \<or>
      DetailsSourceDefined E (?s1\<lparr>viewport := map_option Refresh (viewport s)\<rparr>)"
    by (simp add: DetailsSourceDefined_frame)
  then have "\<exists>s'. RefreshDetailsView E (?s1\<lparr>viewport := map_option Refresh (viewport s)\<rparr>) = Inr s'"
    by (simp only: RefreshDetailsView_returns_iff)
  then show ?thesis
    by (simp only: SkeletonTree_OnSelectionChanged_unfold' [OF tree])
qed

text \<open>
  Claim C3. When the tree's selection is the single name \<open>b\<close>, a bone of the preview
  mesh, \<^verbatim>\<open>SkeletonTree_OnSelectionChanged\<close> succeeds (the preview instance, the proxy and
  the details view being there), the bones of interest become the one index of \<open>b\<close>,
  read back as names they are \<open>b\<close> alone, and the details view is bound to the
  proxy, whose bone name is \<open>b\<close>.
\<close>

theorem SkeletonTree_OnSelectionChanged_singleton:
  assumes "skeletonTree s = Some tree" and "SelectedBoneNames tree = [b]"
    and "skeletalMeshPreviewComponent s = Some c" and "SkeletalMesh c = Some mesh"
    and "IsBoneOfMesh E mesh b"
    and "PreviewInstance c = Some f"
    and "detailsViewBone s = Some p0"
    and "detailsView s = Some dv"
  shows "\<exists>s' c' dv' p.
     SkeletonTree_OnSelectionChanged E s = Inr s' \<and>
     skeletalMeshPreviewComponent s' = Some c' \<and>
     BonesOfInterest c' = [GetBoneIndex E (Some mesh) b] \<and>
     GetSelectedBoneNames E s' = [b] \<and>
     detailsView s' = Some dv' \<and> BoundObject dv' = Some DetailsViewBonePtr \<and>
     detailsViewBone s' = Some p \<and> BoneName p = b"
proof -
  let ?c' = "c\<lparr>BonesOfInterest := [GetBoneIndex E (Some mesh) b]\<rparr>"
  let ?dv' = "dv\<lparr>BoundObject := Some DetailsViewBonePtr\<rparr>"
  let ?s' = "s\<lparr>skeletalMeshPreviewComponent := Some ?c',
               viewport := map_option Refresh (viewport s),
               detailsViewBone := Some (BoneProxy E mesh f b),
               detailsView := Some ?dv'\<rparr>"
  have run: "SkeletonTree_OnSelectionChanged E s = Inr ?s'"
    using assms(1,2,3,4,6,7,8,5) by (rule SkeletonTree_OnSelectionChanged_bone)
  have comp: "skeletalMeshPreviewComponent ?s' = Some ?c'" by simp
  have names: "GetSelectedBoneNames E ?s' = [b]"
    using GetSelectedBoneNames_Some [OF comp, of E] assms(4,5) by (simp add: IsBoneOfMesh_def)
  show ?thesis
    using run comp names
    by (intro exI [of _ ?s'] exI [of _ ?c'] exI [of _ ?dv'] exI [of _ "BoneProxy E mesh f b"])
       (simp add: BoneProxy_def)
qed

theorem SkeletonTree_OnSelectionChanged_singleton_witness:
  "skeletonTree (UserSelectsInTree exampleEditor [''Spine_02'']) =
     Some \<lparr>SelectedBoneNames = [''Spine_02''], OnSelectionChangedRaised = 1\<rparr> \<and>
   IsBoneOfMesh exampleEngine 7 ''Spine_02'' \<and>
   (\<exists>s' c' dv' p.
      SkeletonTree_OnSelectionChanged exampleEngine
        (UserSelectsInTree exampleEditor [''Spine_02'']) = Inr s' \<and>
      skeletalMeshPreviewComponent s' = Some c' \<and> BonesOfInterest c' = [2] \<and>
      GetSelectedBoneNames exampleEngine s' = [''Spine_02''] \<and>
      detailsView s' = Some dv' \<and> BoundObject dv' = Some DetailsViewBonePtr \<and>
      detailsViewBone s' = Some p \<and> BoneName p = ''Spine_02'')"
proof -
  let ?s = "UserSelectsInTree exampleEditor [''Spine_02'']"
  let ?t = "\<lparr>SelectedBoneNames = [''Spine_02''], OnSelectionChangedRaised = 1\<rparr>"
  have tree: "skeletonTree ?s = Some ?t"
    by (simp add: UserSelectsInTree_def SSkeletonTree_UserSelect_def exampleEditor_def)
  have sel: "SelectedBoneNames ?t = [''Spine_02'']" by simp
  have comp: "skeletalMeshPreviewComponent ?s = Some exampleComponent"
    by (simp add: UserSelectsInTree_def exampleEditor_def)
  have mesh: "SkeletalMesh exampleComponent = Some 7" by (simp add: exampleComponent_def)
  have bone: "IsBoneOfMesh exampleEngine 7 ''Spine_02''"
    by (simp add: IsBoneOfMesh_def exampleEngine_def exampleBoneIndex_def exampleBoneName_def
        exampleRefPose_def)
  have inst: "PreviewInstance exampleComponent =
      Some [''Spine_01'' \<mapsto> \<lparr>NodeRotation = 5, NodeTranslation = 21, NodeScale = 2\<rparr>]"
    by (simp add: exampleComponent_def)
  have proxy: "detailsViewBone ?s = Some exampleProxy"
    by (simp add: UserSelectsInTree_def exampleEditor_def)
  have dv: "detailsView ?s = Some \<lparr>BoundObject = None\<rparr>"
    by (simp add: UserSelectsInTree_def exampleEditor_def)
  have idx: "GetBoneIndex exampleEngine (Some 7) ''Spine_02'' = 2"
    by (simp add: exampleEngine_def exampleBoneIndex_def)
  from SkeletonTree_OnSelectionChanged_singleton
    [OF tree sel comp mesh bone inst proxy dv]
  show ?thesis using tree bone idx by simp
qed








text \<open>
  Whenever \<^verbatim>\<open>Viewport_OnSelectionChanged\<close> returns: it has read the bones of interest
  of the preview component and named each index (no component gives no names), set
  those names as the selection of the skeleton tree, if there is one, and bound the
  details view, if there is one, to the source object: the proxy for a single selected
  bone, nothing otherwise. The preview component is left as it was. The handler
  returns whenever there is no details view or the source object can be made.
\<close>

lemma Viewport_OnSelectionChanged_pushes_names:
  "(detailsView s = None \<or> DetailsSourceDefined E s \<longrightarrow>
      (\<exists>s'. Viewport_OnSelectionChanged E s = Inr s')) \<and>
   (\<forall>s'. Viewport_OnSelectionChanged E s = Inr s' \<longrightarrow>
      skeletonTree s' =
        map_option (\<lambda>t. t\<lparr>SelectedBoneNames := GetSelectedBoneNames E s\<rparr>) (skeletonTree s) \<and>
      detailsView s' =
        map_option (\<lambda>dv. dv\<lparr>BoundObject :=
          if bSingleBoneSelected s then Some DetailsViewBonePtr else None\<rparr>) (detailsView s) \<and>
      skeletalMeshPreviewComponent s' = skeletalMeshPreviewComponent s) \<and>
   GetSelectedBoneNames E s =
     (case skeletalMeshPreviewComponent s of
        None \<Rightarrow> []
      | Some c \<Rightarrow> map (GetBoneName E (SkeletalMesh c)) (BonesOfInterest c))"
proof (intro conjI impI allI)
  assume "detailsView s = None \<or> DetailsSourceDefined E s"
  then show "\<exists>s'. Viewport_OnSelectionChanged E s = Inr s'"
    by (simp add: Viewport_OnSelectionChanged_returns_iff)
next
  fix s'
  assume run: "Viewport_OnSelectionChanged E s = Inr s'"
  from Viewport_OnSelectionChanged_shape [OF run]
  obtain p where eq: "s' = s\<lparr>skeletonTree :=
               map_option (\<lambda>t. t\<lparr>SelectedBoneNames := GetSelectedBoneNames E s\<rparr>) (skeletonTree s),
             detailsViewBone := p,
             detailsView := map_option (\<lambda>dv. dv\<lparr>BoundObject :=
               if bSingleBoneSelected s then Some DetailsViewBonePtr else None\<rparr>) (detailsView s)\<rparr>"
    by (elim exE conjE)
  show "skeletonTree s' =
      map_option (\<lambda>t. t\<lparr>SelectedBoneNames := GetSelectedBoneNames E s\<rparr>) (skeletonTree s)"
    by (subst eq) simp
  show "detailsView s' =
      map_option (\<lambda>dv. dv\<lparr>BoundObject :=
        if bSingleBoneSelected s then Some DetailsViewBonePtr else None\<rparr>) (detailsView s)"
    by (subst eq) simp
  show "skeletalMeshPreviewComponent s' = skeletalMeshPreviewComponent s"
    by (subst eq) simp
next
  show "GetSelectedBoneNames E s =
     (case skeletalMeshPreviewComponent s of
        None \<Rightarrow> []
      | Some c \<Rightarrow> map (GetBoneName E (SkeletalMesh c)) (BonesOfInterest c))"
    by (simp add: GetSelectedBoneNames_def GetSelectedBoneNames_loop_eq split: option.splits)
qed

lemma Viewport_OnSelectionChanged_pushes_names_example:
  "DetailsSourceDefined exampleEngine (exampleEditorWith [2, 0]) \<and>
   (\<exists>s' t dv. Viewport_OnSelectionChanged exampleEngine (exampleEditorWith [2, 0]) = Inr s' \<and>
      skeletonTree s' = Some t \<and> SelectedBoneNames t = [''Spine_02'', ''Root''] \<and>
      detailsView s' = Some dv \<and> BoundObject dv = None) \<and>
   DetailsSourceDefined exampleEngine (exampleEditorWith [1]) \<and>
   (\<exists>s' t dv. Viewport_OnSelectionChanged exampleEngine (exampleEditorWith [1]) = Inr s' \<and>
      skeletonTree s' = Some t \<and> SelectedBoneNames t = [''Spine_01''] \<and>
      detailsView s' = Some dv \<and> BoundObject dv = Some DetailsViewBonePtr)"
proof -
  note th2 = Viewport_OnSelectionChanged_pushes_names [of "exampleEditorWith [2, 0]" exampleEngine]
  note th1 = Viewport_OnSelectionChanged_pushes_names [of "exampleEditorWith [1]" exampleEngine]
  have ok2: "DetailsSourceDefined exampleEngine (exampleEditorWith [2, 0])"
    by (simp add: DetailsSourceDefined_def exampleEditorWith_def)
  have ok1: "DetailsSourceDefined exampleEngine (exampleEditorWith [1])"
    by (simp add: DetailsSourceDefined_def exampleEditorWith_def exampleEditor_def
        exampleComponent_def exampleEngine_def exampleBoneName_def exampleRefPose_def)
  have names2: "GetSelectedBoneNames exampleEngine (exampleEditorWith [2, 0]) = [''Spine_02'', ''Root'']"
    using th2 by (simp add: exampleEditorWith_def exampleComponent_def exampleEngine_def
        exampleBoneName_def)
  have names1: "GetSelectedBoneNames exampleEngine (exampleEditorWith [1]) = [''Spine_01'']"
    using th1 by (simp add: exampleEditorWith_def exampleComponent_def exampleEngine_def
        exampleBoneName_def)
  have single2: "\<not> bSingleBoneSelected (exampleEditorWith [2, 0])"
    and single1: "bSingleBoneSelected (exampleEditorWith [1])"
    by (simp_all add: bSingleBoneSelected_def exampleEditorWith_def)
  have panels: "skeletonTree (exampleEditorWith boi) =
      Some \<lparr>SelectedBoneNames = [], OnSelectionChangedRaised = 0\<rparr>"
    "detailsView (exampleEditorWith boi) = Some \<lparr>BoundObject = None\<rparr>" for boi
    by (simp_all add: exampleEditorWith_def exampleEditor_def)
  from th2 ok2 obtain s2 where r2: "Viewport_OnSelectionChanged exampleEngine (exampleEditorWith [2, 0]) = Inr s2"
    by blast
  from th1 ok1 obtain s1 where r1: "Viewport_OnSelectionChanged exampleEngine (exampleEditorWith [1]) = Inr s1"
    by blast
  have a2: "skeletonTree s2 = Some \<lparr>SelectedBoneNames = [''Spine_02'', ''Root''], OnSelectionChangedRaised = 0\<rparr>"
    and b2: "detailsView s2 = Some \<lparr>BoundObject = None\<rparr>"
    using th2 r2 names2 single2 panels by simp_all
  have a1: "skeletonTree s1 = Some \<lparr>SelectedBoneNames = [''Spine_01''], OnSelectionChangedRaised = 0\<rparr>"
    and b1: "detailsView s1 = Some \<lparr>BoundObject = Some DetailsViewBonePtr\<rparr>"
    using th1 r1 names1 single1 panels by simp_all
  show ?thesis
    using ok2 ok1 r2 r1 a2 b2 a1 b1 by simp
qed


subsection \<open>Absent panels and components\<close>

















subsection \<open>No notification comes back\<close>

lemma example_Spine_02:
  "IsBoneOfMesh exampleEngine 7 ''Spine_02''"
  "GetBoneIndex exampleEngine (Some 7) ''Spine_02'' = 2"
  "SkeletalMesh exampleComponent = Some 7"
  "PreviewInstance exampleComponent =
     Some [''Spine_01'' \<mapsto> \<lparr>NodeRotation = 5, NodeTranslation = 21, NodeScale = 2\<rparr>]"
  by (simp_all add: IsBoneOfMesh_def exampleEngine_def exampleBoneIndex_def exampleBoneName_def
      exampleRefPose_def exampleComponent_def)

lemma example_UserSelectsInTree:
  "skeletonTree (UserSelectsInTree exampleEditor names) =
     Some \<lparr>SelectedBoneNames = names, OnSelectionChangedRaised = 1\<rparr>"
  "skeletalMeshPreviewComponent (UserSelectsInTree exampleEditor names) = Some exampleComponent"
  "detailsViewBone (UserSelectsInTree exampleEditor names) = Some exampleProxy"
  "detailsView (UserSelectsInTree exampleEditor names) = Some \<lparr>BoundObject = None\<rparr>"
  "viewportClientWeakPtr (UserSelectsInTree exampleEditor names) =
     Some \<lparr>SkeletalMeshPreviewComponent = Some PreviewComponentPtr, ClientSelectionChangedRaised = 0\<rparr>"
  by (simp_all add: UserSelectsInTree_def SSkeletonTree_UserSelect_def exampleEditor_def)

lemma example_UserPicksInViewport:
  "skeletonTree (UserPicksInViewport exampleEditor boi) =
     Some \<lparr>SelectedBoneNames = [], OnSelectionChangedRaised = 0\<rparr>"
  "skeletalMeshPreviewComponent (UserPicksInViewport exampleEditor boi) =
     Some (exampleComponent\<lparr>BonesOfInterest := boi\<rparr>)"
  "detailsViewBone (UserPicksInViewport exampleEditor boi) = Some exampleProxy"
  "detailsView (UserPicksInViewport exampleEditor boi) = Some \<lparr>BoundObject = None\<rparr>"
  "viewportClientWeakPtr (UserPicksInViewport exampleEditor boi) =
     Some \<lparr>SkeletalMeshPreviewComponent = Some PreviewComponentPtr, ClientSelectionChangedRaised = 1\<rparr>"
  by (simp_all add: UserPicksInViewport_def exampleEditor_def)

lemma SSkeletonTree_raised_frame:
  "map_option OnSelectionChangedRaised (map_option (\<lambda>t. t\<lparr>SelectedBoneNames := names\<rparr>) t0) =
   map_option OnSelectionChangedRaised t0"
  by (cases t0) simp_all

text \<open>
  Claim C8. Neither handler makes a panel raise "selection changed": whenever
  \<^verbatim>\<open>SkeletonTree_OnSelectionChanged\<close> or \<^verbatim>\<open>Viewport_OnSelectionChanged\<close> returns, the
  notifications raised by the skeleton tree and by the viewport client are as many as
  before the handler ran. The tree handler writes the bones of interest and leaves the
  tree and the viewport client as they were; the viewport handler sets the tree's
  selection, which raises nothing, and leaves the preview component and the viewport
  client as they were.
\<close>

theorem handlers_raise_no_selection_changed:
  "(\<forall>s'. SkeletonTree_OnSelectionChanged E s = Inr s' \<longrightarrow>
      SelectionChangedRaised s' = SelectionChangedRaised s \<and>
      skeletonTree s' = skeletonTree s \<and> viewportClientWeakPtr s' = viewportClientWeakPtr s) \<and>
   (\<forall>s'. Viewport_OnSelectionChanged E s = Inr s' \<longrightarrow>
      SelectionChangedRaised s' = SelectionChangedRaised s \<and>
      skeletalMeshPreviewComponent s' = skeletalMeshPreviewComponent s \<and>
      viewportClientWeakPtr s' = viewportClientWeakPtr s)"
proof (intro conjI allI impI)
  fix s'
  assume run: "SkeletonTree_OnSelectionChanged E s = Inr s'"
  from SkeletonTree_OnSelectionChanged_tree [OF run]
  obtain tree where tree: "skeletonTree s = Some tree" ..
  note f = SkeletonTree_OnSelectionChanged_fields [OF run tree]
  show "skeletonTree s' = skeletonTree s" by (rule f(1))
  show "viewportClientWeakPtr s' = viewportClientWeakPtr s" by (rule f(2))
  show "SelectionChangedRaised s' = SelectionChangedRaised s"
    by (simp add: SelectionChangedRaised_def f(1) f(2))
next
  fix s'
  assume run: "Viewport_OnSelectionChanged E s = Inr s'"
  note f = Viewport_OnSelectionChanged_fields [OF run]
  show "skeletalMeshPreviewComponent s' = skeletalMeshPreviewComponent s" by (rule f(1))
  show "viewportClientWeakPtr s' = viewportClientWeakPtr s" by (rule f(2))
  show "SelectionChangedRaised s' = SelectionChangedRaised s"
    by (simp add: SelectionChangedRaised_def f(2) f(6) SSkeletonTree_raised_frame)
qed


theorem handlers_raise_no_selection_changed_witness:
  "SelectionChangedRaised (UserSelectsInTree exampleEditor [''Spine_02'']) = (Some 1, Some 0) \<and>
   (\<exists>s'. SkeletonTree_OnSelectionChanged exampleEngine
            (UserSelectsInTree exampleEditor [''Spine_02'']) = Inr s' \<and>
      SelectionChangedRaised s' = (Some 1, Some 0)) \<and>
   SelectionChangedRaised (UserPicksInViewport exampleEditor [2]) = (Some 0, Some 1) \<and>
   (\<exists>s'. Viewport_OnSelectionChanged exampleEngine (UserPicksInViewport exampleEditor [2]) = Inr s' \<and>
      SelectionChangedRaised s' = (Some 0, Some 1))"
proof -
  let ?t = "UserSelectsInTree exampleEditor [''Spine_02'']"
  let ?v = "UserPicksInViewport exampleEditor [2]"
  have before_t: "SelectionChangedRaised ?t = (Some 1, Some 0)"
    by (simp add: SelectionChangedRaised_def example_UserSelectsInTree)
  have before_v: "SelectionChangedRaised ?v = (Some 0, Some 1)"
    by (simp add: SelectionChangedRaised_def example_UserPicksInViewport)
  have "\<exists>s'. SkeletonTree_OnSelectionChanged exampleEngine ?t = Inr s'"
    using SkeletonTree_OnSelectionChanged_bone
      [OF example_UserSelectsInTree(1) _ example_UserSelectsInTree(2) example_Spine_02(3,4)
        example_UserSelectsInTree(3,4) example_Spine_02(1)]
    by simp
  then obtain s1 where r1: "SkeletonTree_OnSelectionChanged exampleEngine ?t = Inr s1" ..
  have "\<exists>s'. Viewport_OnSelectionChanged exampleEngine ?v = Inr s'"
    using Viewport_OnSelectionChanged_bone
      [OF example_UserPicksInViewport(1,2) _ _ _ example_UserPicksInViewport(3,4)
        example_Spine_02(1)]
    by (simp add: example_Spine_02)
  then obtain s2 where r2: "Viewport_OnSelectionChanged exampleEngine ?v = Inr s2" ..
  note th_t = handlers_raise_no_selection_changed [of exampleEngine ?t, THEN conjunct1, rule_format, OF r1]
  note th_v = handlers_raise_no_selection_changed [of exampleEngine ?v, THEN conjunct2, rule_format, OF r2]
  have a: "SelectionChangedRaised s1 = (Some 1, Some 0)"
    using th_t [THEN conjunct1] before_t by simp
  have b: "SelectionChangedRaised s2 = (Some 0, Some 1)"
    using th_v [THEN conjunct1] before_v by simp
  show ?thesis
    using before_t before_v r1 r2 a b by (intro conjI exI [of _ s1] exI [of _ s2])
qed


subsection \<open>Both paths reach the same selection\<close>

text \<open>
  Claim C9. Let \<open>b\<close> be a bone of the preview mesh, such as Spine_02, in an editor
  whose panels, proxy and preview instance exist. Selecting \<open>b\<close> in the tree and
  running the tree's handler, then picking the same bone in the viewport and running
  the viewport's handler, ends in the selection the tree's handler alone had reached,
  and so does the viewport path alone: the bones of interest are the index of \<open>b\<close>,
  the tree's selection is \<open>b\<close>, and the details view is bound to the proxy showing \<open>b\<close>.
\<close>

theorem tree_then_viewport_selection_converges:
  assumes tree: "skeletonTree s = Some tree"
    and comp: "skeletalMeshPreviewComponent s = Some c" and mesh: "SkeletalMesh c = Some mesh"
    and bone: "IsBoneOfMesh E mesh b"
    and inst: "PreviewInstance c = Some f"
    and proxy: "detailsViewBone s = Some p0"
    and dv: "detailsView s = Some dv"
  shows "\<exists>s1 s2 s3.
     SkeletonTree_OnSelectionChanged E (UserSelectsInTree s [b]) = Inr s1 \<and>
     Viewport_OnSelectionChanged E (UserPicksInViewport s1 [GetBoneIndex E (Some mesh) b]) = Inr s2 \<and>
     Viewport_OnSelectionChanged E (UserPicksInViewport s [GetBoneIndex E (Some mesh) b]) = Inr s3 \<and>
     SelectionState s1 =
       (Some [GetBoneIndex E (Some mesh) b], Some [b], Some (Some DetailsViewBonePtr),
        Some (BoneProxy E mesh f b)) \<and>
     SelectionState s2 = SelectionState s1 \<and>
     SelectionState s3 = SelectionState s1"
proof -
  let ?i = "GetBoneIndex E (Some mesh) b"
  let ?t0 = "SSkeletonTree_UserSelect tree [b]"
  let ?c1 = "c\<lparr>BonesOfInterest := [?i]\<rparr>"
  let ?dv1 = "dv\<lparr>BoundObject := Some DetailsViewBonePtr\<rparr>"
  let ?P = "BoneProxy E mesh f b"
  let ?u0 = "UserSelectsInTree s [b]"
  let ?s1 = "?u0\<lparr>skeletalMeshPreviewComponent := Some ?c1,
               viewport := map_option Refresh (viewport ?u0),
               detailsViewBone := Some ?P, detailsView := Some ?dv1\<rparr>"
  have u0: "skeletonTree ?u0 = Some ?t0" "SelectedBoneNames ?t0 = [b]"
    "skeletalMeshPreviewComponent ?u0 = Some c" "detailsViewBone ?u0 = Some p0"
    "detailsView ?u0 = Some dv"
    using tree comp proxy dv by (simp_all add: UserSelectsInTree_def SSkeletonTree_UserSelect_def)
  have r1: "SkeletonTree_OnSelectionChanged E ?u0 = Inr ?s1"
    by (rule SkeletonTree_OnSelectionChanged_bone [OF u0(1,2,3) mesh inst u0(4,5) bone])
  let ?u1 = "UserPicksInViewport ?s1 [?i]"
  let ?s2 = "?u1\<lparr>skeletonTree := Some (?t0\<lparr>SelectedBoneNames := [b]\<rparr>),
               detailsViewBone := Some ?P, detailsView := Some (?dv1\<lparr>BoundObject := Some DetailsViewBonePtr\<rparr>)\<rparr>"
  have u1: "skeletonTree ?u1 = Some ?t0"
    "skeletalMeshPreviewComponent ?u1 = Some (?c1\<lparr>BonesOfInterest := [?i]\<rparr>)"
    "detailsViewBone ?u1 = Some ?P" "detailsView ?u1 = Some ?dv1"
    using u0 by (simp_all add: UserPicksInViewport_def)
  have c1: "BonesOfInterest (?c1\<lparr>BonesOfInterest := [?i]\<rparr>) = [?i]"
    "SkeletalMesh (?c1\<lparr>BonesOfInterest := [?i]\<rparr>) = Some mesh"
    "PreviewInstance (?c1\<lparr>BonesOfInterest := [?i]\<rparr>) = Some f"
    using mesh inst by simp_all
  have r2: "Viewport_OnSelectionChanged E ?u1 = Inr ?s2"
    by (rule Viewport_OnSelectionChanged_bone [OF u1(1,2) c1 u1(3,4) bone])
  let ?u3 = "UserPicksInViewport s [?i]"
  let ?s3 = "?u3\<lparr>skeletonTree := Some (tree\<lparr>SelectedBoneNames := [b]\<rparr>),
               detailsViewBone := Some ?P, detailsView := Some ?dv1\<rparr>"
  have u3: "skeletonTree ?u3 = Some tree"
    "skeletalMeshPreviewComponent ?u3 = Some ?c1"
    "detailsViewBone ?u3 = Some p0" "detailsView ?u3 = Some dv"
    using tree comp proxy dv by (simp_all add: UserPicksInViewport_def)
  have c3: "BonesOfInterest ?c1 = [?i]" "SkeletalMesh ?c1 = Some mesh" "PreviewInstance ?c1 = Some f"
    using mesh inst by simp_all
  have r3: "Viewport_OnSelectionChanged E ?u3 = Inr ?s3"
    by (rule Viewport_OnSelectionChanged_bone [OF u3(1,2) c3 u3(3,4) bone])
  have sel1: "SelectionState ?s1 =
      (Some [?i], Some [b], Some (Some DetailsViewBonePtr), Some ?P)"
    using u0 by (simp add: SelectionState_def)
  have sel2: "SelectionState ?s2 =
      (Some [?i], Some [b], Some (Some DetailsViewBonePtr), Some ?P)"
    using u1 by (simp add: SelectionState_def)
  have sel3: "SelectionState ?s3 =
      (Some [?i], Some [b], Some (Some DetailsViewBonePtr), Some ?P)"
    using u3 by (simp add: SelectionState_def)
  show ?thesis
    using r1 r2 r3 sel1 sel2 sel3
    by (intro exI [of _ ?s1] exI [of _ ?s2] exI [of _ ?s3]) (simp only: simp_thms)
qed

theorem tree_then_viewport_selection_converges_witness:
  "IsBoneOfMesh exampleEngine 7 ''Spine_02'' \<and>
   (\<exists>s1 s2 s3.
      SkeletonTree_OnSelectionChanged exampleEngine
        (UserSelectsInTree exampleEditor [''Spine_02'']) = Inr s1 \<and>
      Viewport_OnSelectionChanged exampleEngine (UserPicksInViewport s1 [2]) = Inr s2 \<and>
      Viewport_OnSelectionChanged exampleEngine (UserPicksInViewport exampleEditor [2]) = Inr s3 \<and>
      SelectionState s1 =
        (Some [2], Some [''Spine_02''], Some (Some DetailsViewBonePtr),
         Some \<lparr>BoneName = ''Spine_02'', ParentBoneName = ''Spine_01'',
               BoneTransform = \<lparr>Rotation = 0, Translation = 30, Scale3D = 1\<rparr>\<rparr>) \<and>
      SelectionState s2 = SelectionState s1 \<and>
      SelectionState s3 = SelectionState s1)"
proof -
  have tree: "skeletonTree exampleEditor = Some \<lparr>SelectedBoneNames = [], OnSelectionChangedRaised = 0\<rparr>"
    and comp: "skeletalMeshPreviewComponent exampleEditor = Some exampleComponent"
    and proxy: "detailsViewBone exampleEditor = Some exampleProxy"
    and dv: "detailsView exampleEditor = Some \<lparr>BoundObject = None\<rparr>"
    by (simp_all add: exampleEditor_def)
  have P: "BoneProxy exampleEngine 7
      [''Spine_01'' \<mapsto> \<lparr>NodeRotation = 5, NodeTranslation = 21, NodeScale = 2\<rparr>] ''Spine_02'' =
      \<lparr>BoneName = ''Spine_02'', ParentBoneName = ''Spine_01'',
       BoneTransform = \<lparr>Rotation = 0, Translation = 30, Scale3D = 1\<rparr>\<rparr>"
    by (simp add: BoneProxy_def exampleEngine_def exampleBoneIndex_def exampleBoneName_def
        exampleRefPose_def numeral_2_eq_2)
  from tree_then_viewport_selection_converges
    [OF tree comp example_Spine_02(3) example_Spine_02(1) example_Spine_02(4) proxy dv]
  show ?thesis
    using example_Spine_02(1) by (simp only: example_Spine_02(2) P simp_thms)
qed

end
